theory Spec2Isabelle
  imports Main "HOL-Library.Word" "HOL-Library.AList"
begin

unbundle bit_operations_syntax

chapter \<open>The frame-analysis gateway: embedding of the Go sources\<close>

text \<open>
  Conventions of the embedding.
  \<^item> A \<^verbatim>\<open>time.Time\<close> is an \<^typ>\<open>int\<close>: nanoseconds since the Unix epoch. A
    \<^verbatim>\<open>time.Duration\<close> that is only added to a time or compared is an \<^typ>\<open>int\<close> number
    of nanoseconds as well; the one duration that is multiplied is a 64-bit word.
  \<^item> Every operation that reads the clock takes the reading as its argument \<open>now\<close>. Where
    one Go function reads the clock several times in a row, the readings are identified.
  \<^item> Mutation through a pointer is a function that returns the updated structure. The
    map of a cache is an association list, the map of the rate limiter a partial
    function.
  \<^item> An \<^verbatim>\<open>error\<close> result is an \<open>option\<close> (\<open>None\<close> is Go's \<^verbatim>\<open>nil\<close>) or the left side of
    a sum; a panic is a value of \<open>go_panic\<close> on the left of a sum.
  \<^item> The \<^verbatim>\<open>int64\<close> values of the cache are 64-bit words. The other Go integers (scores,
    token counts, statistics, retry counters) are unbounded integers: the code does not
    bring them near the bounds of a 64-bit \<^verbatim>\<open>int\<close>.
  \<^item> Goroutines are not modelled as such. Where the outcome of a call depends on what
    other goroutines do in the meantime (which case of a \<^verbatim>\<open>select\<close> fires, whether the
    queue takes an item), that is an argument of the function.
\<close>

section \<open>Inference service response (package ml, types)\<close>

text \<open>
  A \<^verbatim>\<open>float64\<close> is kept as its IEEE 754 bit pattern: the gateway copies such values and
  compares one of them with 0.5, it never computes with them. A slice is a list (a nil
  slice and an empty one are both \<open>[]\<close>), a \<^verbatim>\<open>map[string]any\<close> is an association list.
  Several structs of the source share field names; the records declared first are read
  with qualified selectors (\<open>AnalysisResponse.OverallScore\<close>), the later ones without.
\<close>

type_synonym float64 = "64 word"
type_synonym byte = "8 word"

datatype any = ANil | AString string | AInt int | AFloat float64 | ABool bool

text \<open>The run-time panics of Go that the modelled code can raise.\<close>

datatype go_panic = CloseOfClosedChannel | NilPointerDereference | SendOnClosedChannel

record BBox =
  X :: float64
  Y :: float64
  Width :: float64
  Height :: float64

record ObjectDetection =
  Class :: string
  Confidence :: float64
  BoundingBox :: BBox
  TrackID :: int

record PoseKeypoint =
  Name :: string
  X :: float64
  Y :: float64
  Confidence :: float64
  Visible :: bool

record SceneAnalysisResult =
  RoadType :: string
  LaneCount :: int
  WeatherCondition :: string
  TimeOfDay :: string
  TrafficDensity :: string
  RoadCondition :: string
  SpeedLimit :: int
  Visibility :: float64

record AnalysisResponse =
  OverallScore :: int
  PostureScore :: int
  LaneScore :: int
  SpeedScore :: int
  Detections :: "ObjectDetection list"
  PoseKeypoints :: "PoseKeypoint list"
  SceneAnalysis :: SceneAnalysisResult
  ProcessingTime :: float64
  ModelVersion :: string

record AnalysisRequest =
  ImageData :: "byte list"
  Timestamp :: int
  Config :: "(string \<times> any) list"

text \<open>
  \<^verbatim>\<open>RetryDelay\<close> is multiplied in \<^verbatim>\<open>time.Duration\<close>, a 64-bit integer: it is a word.
\<close>

record ClientConfig =
  Timeout :: int
  MaxRetries :: int
  RetryDelay :: "64 word"
  HealthCheckInterval :: int

section \<open>Result model (package models)\<close>

record Point =
  X :: float64
  Y :: float64

record Annotation =
  Type :: string
  X :: float64
  Y :: float64
  Width :: float64
  Height :: float64
  Points :: "Point list"
  Label :: string
  Confidence :: float64
  Color :: string

record Feedback =
  Type :: string
  Message :: string
  Score :: int
  Category :: string
  Priority :: int

record AnalysisResult =
  OverallScore :: int
  PostureScore :: int
  LaneScore :: int
  SpeedScore :: int
  Annotations :: "Annotation list"
  Feedback :: "Feedback list"
  Metadata :: "(string \<times> any) list"
  ProcessingTime :: float64
  ModelVersion :: string
  Timestamp :: int

record FrameRequest =
  ImageData :: "byte list"
  Timestamp :: int
  ClientID :: string
  Metadata :: "(string \<times> any) list"

text \<open>The zero value of \<^verbatim>\<open>models.AnalysisResult\<close> (\<^verbatim>\<open>var cachedResult models.AnalysisResult\<close>).\<close>

definition zeroAnalysisResult :: AnalysisResult where
  "zeroAnalysisResult =
     \<lparr>AnalysisResult.OverallScore = 0, AnalysisResult.PostureScore = 0,
      AnalysisResult.LaneScore = 0, AnalysisResult.SpeedScore = 0,
      AnalysisResult.Annotations = [], AnalysisResult.Feedback = [],
      AnalysisResult.Metadata = [], AnalysisResult.ProcessingTime = 0,
      AnalysisResult.ModelVersion = [], AnalysisResult.Timestamp = 0\<rparr>"

section \<open>Inference client (package ml)\<close>

text \<open>
  \<open>requests\<close> is a ghost field: the number of calls of \<^verbatim>\<open>executeAnalysisRequest\<close> made so
  far. The HTTP client and the logger are not modelled.
\<close>

record Client =
  baseURL :: string
  config :: ClientConfig
  requests :: nat

text \<open>\<^verbatim>\<open>NewClient\<close>: the configuration it builds (durations in nanoseconds).\<close>

definition NewClient :: "string \<Rightarrow> Client" where
  "NewClient url =
     \<lparr>baseURL = url,
      config = \<lparr>Timeout = 30000000000, MaxRetries = 3, RetryDelay = 1000000000,
                HealthCheckInterval = 30000000000\<rparr>,
      requests = 0\<rparr>"

datatype ml_error =
    CreateRequestFailed
  | HTTPRequestFailed
  | ServiceError int
  | DecodeFailed
  | AnalysisFailed int "ml_error option"

text \<open>
  What the world does with one call of \<^verbatim>\<open>executeAnalysisRequest\<close>:
  \<^verbatim>\<open>http.NewRequest\<close> rejects the URL, \<^verbatim>\<open>httpClient.Do\<close> fails (a transport error), or a
  response arrives with a status code and a body. The body is given by what
  \<^verbatim>\<open>json.NewDecoder(response.Body).Decode\<close> makes of it (\<open>None\<close>: it does not decode),
  and the last field is the clock reading when the response is converted.
  \<^verbatim>\<open>json.Marshal\<close> of an \<^verbatim>\<open>AnalysisRequest\<close> does not fail. The world is a function from the
  number of the call to what happens to it.
\<close>

datatype attempt_outcome =
    NewRequestFails
  | DoFails
  | Response int "AnalysisResponse option" int

text \<open>\<^verbatim>\<open>keypoint.Confidence > 0.5\<close> on the bit pattern: above 0.5 and not a NaN.\<close>

definition gt_half :: "float64 \<Rightarrow> bool" where
  "gt_half w = (0x3FE0000000000000 < w \<and> w \<le> 0x7FF0000000000000)"

definition detection_annotation :: "ObjectDetection \<Rightarrow> Annotation" where
  "detection_annotation detection =
     \<lparr>Annotation.Type = ''bounding_box'',
      Annotation.X = BBox.X (BoundingBox detection),
      Annotation.Y = BBox.Y (BoundingBox detection),
      Annotation.Width = BBox.Width (BoundingBox detection),
      Annotation.Height = BBox.Height (BoundingBox detection),
      Annotation.Points = [],
      Annotation.Label = Class detection,
      Annotation.Confidence = ObjectDetection.Confidence detection,
      Annotation.Color = []\<rparr>"

text \<open>The width and height 5 of a keypoint are the float64 5.0.\<close>

definition keypoint_annotation :: "PoseKeypoint \<Rightarrow> Annotation" where
  "keypoint_annotation keypoint =
     \<lparr>Annotation.Type = ''keypoint'',
      Annotation.X = PoseKeypoint.X keypoint,
      Annotation.Y = PoseKeypoint.Y keypoint,
      Annotation.Width = 0x4014000000000000,
      Annotation.Height = 0x4014000000000000,
      Annotation.Points = [],
      Annotation.Label = Name keypoint,
      Annotation.Confidence = PoseKeypoint.Confidence keypoint,
      Annotation.Color = []\<rparr>"

text \<open>
  \<^verbatim>\<open>func (c *Client) convertMLResponse(mlResp *AnalysisResponse) *models.AnalysisResult\<close>;
  \<open>now\<close> is in nanoseconds since the Unix epoch, \<^verbatim>\<open>time.Now().Unix()\<close> in seconds.
\<close>

definition convertMLResponse :: "int \<Rightarrow> AnalysisResponse \<Rightarrow> AnalysisResult" where
  "convertMLResponse now mlResp =
     \<lparr>AnalysisResult.OverallScore = AnalysisResponse.OverallScore mlResp,
      AnalysisResult.PostureScore = AnalysisResponse.PostureScore mlResp,
      AnalysisResult.LaneScore = AnalysisResponse.LaneScore mlResp,
      AnalysisResult.SpeedScore = AnalysisResponse.SpeedScore mlResp,
      AnalysisResult.Annotations =
        map detection_annotation (Detections mlResp) @
        map keypoint_annotation
          (filter (\<lambda>keypoint. Visible keypoint \<and> gt_half (PoseKeypoint.Confidence keypoint))
             (PoseKeypoints mlResp)),
      AnalysisResult.Feedback = [],
      AnalysisResult.Metadata =
        [(''road_type'', AString (RoadType (SceneAnalysis mlResp))),
         (''lane_count'', AInt (LaneCount (SceneAnalysis mlResp))),
         (''weather_condition'', AString (WeatherCondition (SceneAnalysis mlResp))),
         (''time_of_day'', AString (TimeOfDay (SceneAnalysis mlResp))),
         (''traffic_density'', AString (TrafficDensity (SceneAnalysis mlResp))),
         (''road_condition'', AString (RoadCondition (SceneAnalysis mlResp))),
         (''speed_limit'', AInt (SpeedLimit (SceneAnalysis mlResp))),
         (''visibility'', AFloat (Visibility (SceneAnalysis mlResp)))],
      AnalysisResult.ProcessingTime = AnalysisResponse.ProcessingTime mlResp,
      AnalysisResult.ModelVersion = AnalysisResponse.ModelVersion mlResp,
      AnalysisResult.Timestamp = now div 1000000000\<rparr>"

text \<open>
  \<^verbatim>\<open>func (c *Client) executeAnalysisRequest(request *AnalysisRequest)\<close>, in the world
  \<open>net\<close>.
\<close>

definition executeAnalysisRequest ::
  "(nat \<Rightarrow> attempt_outcome) \<Rightarrow> AnalysisRequest \<Rightarrow> Client \<Rightarrow> (ml_error + AnalysisResult) \<times> Client" where
  "executeAnalysisRequest net request c =
     (let c1 = c\<lparr>requests := Suc (requests c)\<rparr>
      in case net (requests c) of
           NewRequestFails \<Rightarrow> (Inl CreateRequestFailed, c1)
         | DoFails \<Rightarrow> (Inl HTTPRequestFailed, c1)
         | Response status body at \<Rightarrow>
             if status \<noteq> 200 then (Inl (ServiceError status), c1)
             else (case body of
                     None \<Rightarrow> (Inl DecodeFailed, c1)
                   | Some mlResponse \<Rightarrow> (Inr (convertMLResponse at mlResponse), c1)))"

text \<open>
  The loop of \<^verbatim>\<open>AnalyzeFrame\<close>, from \<^verbatim>\<open>attempt\<close> on. \<open>sleeps\<close> is a ghost argument: the
  arguments of \<^verbatim>\<open>time.Sleep\<close> so far, in order. The counter is an unbounded integer:
  it stays below \<^verbatim>\<open>MaxRetries + 2\<close>, which a Go \<^verbatim>\<open>int\<close> holds unless \<^verbatim>\<open>MaxRetries\<close> is the
  largest \<^verbatim>\<open>int\<close>.
\<close>

function AnalyzeFrame_loop ::
  "(nat \<Rightarrow> attempt_outcome) \<Rightarrow> AnalysisRequest \<Rightarrow> int \<Rightarrow> ml_error option \<Rightarrow> 64 word list \<Rightarrow>
   Client \<Rightarrow> (ml_error + AnalysisResult) \<times> 64 word list \<times> Client" where
  "AnalyzeFrame_loop net mlRequest attempt lastErr sleeps c =
     (if attempt \<le> MaxRetries (config c) then
        (let sleeps1 = (if attempt > 0
                        then sleeps @ [RetryDelay (config c) * word_of_int attempt]
                        else sleeps)
         in case executeAnalysisRequest net mlRequest c of
              (Inr result, c1) \<Rightarrow> (Inr result, sleeps1, c1)
            | (Inl err, c1) \<Rightarrow>
                AnalyzeFrame_loop net mlRequest (attempt + 1) (Some err) sleeps1 c1)
      else (Inl (AnalysisFailed (MaxRetries (config c)) lastErr), sleeps, c))"
  by pat_completeness auto
termination
  by (relation "measure (\<lambda>(net, mlRequest, attempt, lastErr, sleeps, c).
        nat (MaxRetries (config c) + 1 - attempt))")
     (auto simp add: executeAnalysisRequest_def Let_def
           split: attempt_outcome.splits if_splits option.splits)

text \<open>\<^verbatim>\<open>func (c *Client) AnalyzeFrame(request *models.FrameRequest)\<close>\<close>

definition AnalyzeFrame ::
  "(nat \<Rightarrow> attempt_outcome) \<Rightarrow> FrameRequest \<Rightarrow> Client \<Rightarrow>
   (ml_error + AnalysisResult) \<times> 64 word list \<times> Client" where
  "AnalyzeFrame net request c =
     AnalyzeFrame_loop net
       \<lparr>AnalysisRequest.ImageData = FrameRequest.ImageData request,
        AnalysisRequest.Timestamp = FrameRequest.Timestamp request,
        AnalysisRequest.Config = [(''client_id'', AString (ClientID request))]\<rparr>
       0 None [] c"

text \<open>
  The attempt ends in an error of \<^verbatim>\<open>executeAnalysisRequest\<close>: the request cannot be
  built, the transport fails, the status is not 200, or the body does not decode.
\<close>

definition attempt_fails :: "attempt_outcome \<Rightarrow> bool" where
  "attempt_fails out =
     (case out of
        NewRequestFails \<Rightarrow> True
      | DoFails \<Rightarrow> True
      | Response status body at \<Rightarrow> status \<noteq> 200 \<or> body = None)"

text \<open>Services for the examples: every answer is 200 with a body that does not decode;
  every answer is 204 No Content.\<close>

definition service_malformed :: "nat \<Rightarrow> attempt_outcome" where
  "service_malformed n = Response 200 None 0"

definition service_204 :: "nat \<Rightarrow> attempt_outcome" where
  "service_204 n = Response 204 None 0"

section \<open>Work queue (server/processor/queue.go)\<close>

text \<open>
  The errors that travel through the queue and the processor: the error of the
  inference client as it is, and the errors the package makes with \<^verbatim>\<open>fmt.Errorf\<close>
  (queue full, processing timeout, worker panic, processing failed, processing
  cancelled, shutdown timeout exceeded).
\<close>

datatype processing_error =
    MLError ml_error
  | QueueFull
  | ProcessingTimeout_error
  | WorkerPanic
  | ProcessingFailed
  | ProcessingCancelled
  | ShutdownTimeoutExceeded

record ProcessingResult =
  Analysis :: "AnalysisResult option"
  Error :: "processing_error option"

text \<open>
  A queue item names its result channel by a number. The result channels are the
  sinks: each has a buffer of one result, as \<^verbatim>\<open>ProcessFrame\<close> makes them, and \<open>None\<close> is
  an empty buffer. Items are not nil.
\<close>

record QueueItem =
  Request :: FrameRequest
  ResultChan :: nat
  StartTime :: int
  Priority :: int

type_synonym sinks = "nat \<Rightarrow> ProcessingResult option"

text \<open>
  \<open>items\<close> is the buffer of the channel \<^verbatim>\<open>pq.items\<close>, oldest item first, \<open>capacity\<close> its
  size; \<open>itemsClosed\<close> and \<open>shutdownClosed\<close> record \<^verbatim>\<open>close(pq.items)\<close> and
  \<^verbatim>\<open>close(pq.shutdown)\<close>. The goroutines of the workers are not part of the record: what
  a worker does is the step \<open>worker_step\<close>, taken when the schedule says so.
\<close>

record ProcessingQueue =
  items :: "QueueItem list"
  capacity :: nat
  itemsClosed :: bool
  workers :: int
  shutdownClosed :: bool
  isRunning :: bool

definition NewProcessingQueue :: "nat \<Rightarrow> int \<Rightarrow> ProcessingQueue" where
  "NewProcessingQueue queueSize n =
     \<lparr>items = [], capacity = queueSize, itemsClosed = False, workers = n,
      shutdownClosed = False, isRunning = True\<rparr>"

text \<open>
  \<^verbatim>\<open>func (pq *ProcessingQueue) Enqueue(item *QueueItem) bool\<close>: a send that does not
  block. A send on a closed channel panics. The hand-over to a worker that waits on an
  empty channel is an \<^verbatim>\<open>Enqueue\<close> followed by that worker's step.
\<close>

definition Enqueue :: "QueueItem \<Rightarrow> ProcessingQueue \<Rightarrow> go_panic + (bool \<times> ProcessingQueue)" where
  "Enqueue item pq =
     (if \<not> isRunning pq then Inr (False, pq)
      else if itemsClosed pq then Inl SendOnClosedChannel
      else if length (items pq) < capacity pq then Inr (True, pq\<lparr>items := items pq @ [item]\<rparr>)
      else Inr (False, pq))"

text \<open>
  A send on a sink: the result is stored when the buffer is empty. A send in a
  \<^verbatim>\<open>select\<close> with \<^verbatim>\<open>default\<close> drops the result otherwise; a plain send blocks its
  goroutine for good then, and the sinks stay as they are as well.
\<close>

definition send_result :: "nat \<Rightarrow> ProcessingResult \<Rightarrow> sinks \<Rightarrow> sinks" where
  "send_result ch r sk = (if sk ch = None then sk(ch := Some r) else sk)"

text \<open>
  What the \<^verbatim>\<open>workerFunc\<close> of the queue does with an item: it sends a result on the
  item's channel, or it panics before it has sent one.
\<close>

datatype handler_outcome = Sends ProcessingResult | Panics

text \<open>
  One round of the loop of \<^verbatim>\<open>func (pq *ProcessingQueue) worker(id int)\<close> in which the
  worker receives from \<^verbatim>\<open>pq.items\<close>: it takes the oldest item and runs the handler,
  and reports a panic of the handler on the item's channel. With nothing in the buffer
  nothing changes.
\<close>

definition worker_step ::
  "(QueueItem \<Rightarrow> handler_outcome) \<Rightarrow> ProcessingQueue \<times> sinks \<Rightarrow> ProcessingQueue \<times> sinks" where
  "worker_step workerFunc s =
     (case s of (pq, sk) \<Rightarrow>
        (case items pq of
           [] \<Rightarrow> (pq, sk)
         | item # rest \<Rightarrow>
             (pq\<lparr>items := rest\<rparr>,
              (case workerFunc item of
                 Sends r \<Rightarrow> send_result (ResultChan item) r sk
               | Panics \<Rightarrow>
                   send_result (ResultChan item) \<lparr>Analysis = None, Error = Some WorkerPanic\<rparr>
                     sk))))"

text \<open>
  \<^verbatim>\<open>func (pq *ProcessingQueue) Shutdown(timeout time.Duration) error\<close>. Which case of
  its \<^verbatim>\<open>select\<close> fires is an argument: the workers have all returned before the timeout
  elapses, or the timeout elapses first.
\<close>

datatype shutdown_race = WorkersFinish | TimeoutElapses

definition Shutdown :: "shutdown_race \<Rightarrow> ProcessingQueue \<Rightarrow> processing_error option \<times> ProcessingQueue" where
  "Shutdown race pq =
     (if \<not> isRunning pq then (None, pq)
      else
        let pq1 = pq\<lparr>isRunning := False, shutdownClosed := True\<rparr>
        in (case race of
              WorkersFinish \<Rightarrow> (None, pq1\<lparr>itemsClosed := True\<rparr>)
            | TimeoutElapses \<Rightarrow> (Some ShutdownTimeoutExceeded, pq1\<lparr>itemsClosed := True\<rparr>)))"

text \<open>
  \<^verbatim>\<open>func (pq *ProcessingQueue) DrainQueue() int\<close>: the loop with its counter. A receive
  from a closed and empty channel yields nil at once, so the \<^verbatim>\<open>default\<close> case is never
  taken then and the loop does not end: the result is \<open>None\<close>.
\<close>

definition cancelled_result :: ProcessingResult where
  "cancelled_result = \<lparr>Analysis = None, Error = Some ProcessingCancelled\<rparr>"

partial_function (option) DrainQueue_loop ::
  "ProcessingQueue \<Rightarrow> sinks \<Rightarrow> nat \<Rightarrow> (nat \<times> ProcessingQueue \<times> sinks) option" where
  "DrainQueue_loop pq sk drained =
     (case items pq of
        item # rest \<Rightarrow>
          DrainQueue_loop (pq\<lparr>items := rest\<rparr>)
            (send_result (ResultChan item) cancelled_result sk) (drained + 1)
      | [] \<Rightarrow>
          if itemsClosed pq then DrainQueue_loop pq sk drained
          else Some (drained, pq, sk))"

definition DrainQueue :: "ProcessingQueue \<Rightarrow> sinks \<Rightarrow> (nat \<times> ProcessingQueue \<times> sinks) option" where
  "DrainQueue pq sk = DrainQueue_loop pq sk 0"

text \<open>
  What happens to a queue, one operation after the other: a caller enqueues an item, a
  worker takes its next round, or the processor shuts the queue down. These are the
  operations the repository performs on a queue: nothing in it calls \<^verbatim>\<open>DrainQueue\<close>.
\<close>

datatype queue_op = OpEnqueue QueueItem | OpWork | OpShutdown shutdown_race

fun run_ops ::
  "(QueueItem \<Rightarrow> handler_outcome) \<Rightarrow> queue_op list \<Rightarrow> ProcessingQueue \<times> sinks \<Rightarrow>
   go_panic + (ProcessingQueue \<times> sinks)" where
  "run_ops workerFunc [] s = Inr s"
| "run_ops workerFunc (OpEnqueue item # ops) (pq, sk) =
     (case Enqueue item pq of
        Inl p \<Rightarrow> Inl p
      | Inr (accepted, pq1) \<Rightarrow> run_ops workerFunc ops (pq1, sk))"
| "run_ops workerFunc (OpWork # ops) (pq, sk) =
     run_ops workerFunc ops (worker_step workerFunc (pq, sk))"
| "run_ops workerFunc (OpShutdown race # ops) (pq, sk) =
     run_ops workerFunc ops (snd (Shutdown race pq), sk)"

text \<open>Two items for the examples, with the sinks 1 and 2, and a handler that succeeds.\<close>

definition item_A :: QueueItem where
  "item_A =
     \<lparr>Request = \<lparr>FrameRequest.ImageData = [1, 2, 3], FrameRequest.Timestamp = 0,
                   ClientID = ''A'', FrameRequest.Metadata = []\<rparr>,
      ResultChan = 1, StartTime = 0, Priority = 4\<rparr>"

definition item_B :: QueueItem where
  "item_B =
     \<lparr>Request = \<lparr>FrameRequest.ImageData = [4, 5, 6], FrameRequest.Timestamp = 0,
                   ClientID = ''B'', FrameRequest.Metadata = []\<rparr>,
      ResultChan = 2, StartTime = 0, Priority = 4\<rparr>"

definition neutral_handler :: "QueueItem \<Rightarrow> handler_outcome" where
  "neutral_handler item = Sends \<lparr>Analysis = Some zeroAnalysisResult, Error = None\<rparr>"

text \<open>The sinks with nothing in them, and the sinks after \<open>item_A\<close> alone was served.\<close>

definition empty_sinks :: sinks where
  "empty_sinks = (\<lambda>ch. None)"

definition sinks_A_served :: sinks where
  "sinks_A_served = empty_sinks(1 := Some \<lparr>Analysis = Some zeroAnalysisResult, Error = None\<rparr>)"

text \<open>No sink holds the cancellation result.\<close>

definition no_cancellation :: "sinks \<Rightarrow> bool" where
  "no_cancellation sk = (\<forall>ch r. sk ch = Some r \<longrightarrow> Error r \<noteq> Some ProcessingCancelled)"

section \<open>Cache (package cache)\<close>

text \<open>
  What a cache stores is an \<^verbatim>\<open>interface{}\<close>: a value together with its dynamic type.
  The gateway stores analysis results, the boolean similarity mark and \<^verbatim>\<open>int64\<close>
  counters.
\<close>

datatype iface = Nil | Int64 "64 word" | Bool bool | Str string | Result AnalysisResult

text \<open>
  The \<^verbatim>\<open>dest interface{}\<close> argument of \<^verbatim>\<open>Get\<close>: a pointer, given by its dynamic type and
  the current content of the cell it points to. \<open>IfacePtr\<close> is a \<^verbatim>\<open>*interface{}\<close>,
  \<open>ResultPtr\<close> a \<^verbatim>\<open>*models.AnalysisResult\<close>. \<^verbatim>\<open>Get\<close> returns the content of the cell
  after the call.
\<close>

datatype dest =
    IfacePtr iface
  | ResultPtr AnalysisResult
  | Int64Ptr "64 word"
  | BoolPtr bool
  | StrPtr string
  | NilDest

datatype cache_error = ErrCacheMiss

record CacheItem =
  Value :: iface
  ExpiresAt :: int
  LastUsed :: int
  AccessCount :: "64 word"

text \<open>
  \<^verbatim>\<open>items map[string]*CacheItem\<close> is an association list with one pair for a key;
  \<^verbatim>\<open>len(c.items)\<close> is its length. Go visits a map in an order it does not specify;
  the order of the list stands for that order. \<open>cleanupStopped\<close> records
  \<^verbatim>\<open>c.cleanup.Stop()\<close>, \<open>stopChClosed\<close> records \<^verbatim>\<open>close(c.stopCh)\<close>. The caches are those
  the constructors build: \<^verbatim>\<open>cleanup\<close> and \<^verbatim>\<open>stopCh\<close> are not nil.
\<close>

subsection \<open>RedisCache: the in-memory stand-in for Redis\<close>

record RedisCache =
  items :: "(string \<times> CacheItem) list"
  ttl :: int
  cleanupStopped :: bool
  stopChClosed :: bool

definition NewRedisCache :: "int \<Rightarrow> RedisCache" where
  "NewRedisCache t =
     \<lparr>RedisCache.items = [], RedisCache.ttl = t, RedisCache.cleanupStopped = False,
      RedisCache.stopChClosed = False\<rparr>"

text \<open>
  The Redis stand-in builds its items without \<^verbatim>\<open>LastUsed\<close> and \<^verbatim>\<open>AccessCount\<close>: they
  are the zero time (written 0) and 0.
\<close>

definition RedisCache_Set ::
  "int \<Rightarrow> string \<Rightarrow> iface \<Rightarrow> RedisCache \<Rightarrow> cache_error option \<times> RedisCache" where
  "RedisCache_Set now key v c =
     (None, c\<lparr>RedisCache.items := AList.update key
        \<lparr>Value = v, ExpiresAt = now + RedisCache.ttl c, LastUsed = 0, AccessCount = 0\<rparr>
        (RedisCache.items c)\<rparr>)"

definition RedisCache_Get ::
  "int \<Rightarrow> string \<Rightarrow> dest \<Rightarrow> RedisCache \<Rightarrow> cache_error option \<times> dest \<times> RedisCache" where
  "RedisCache_Get now key d c =
     (case map_of (RedisCache.items c) key of
        None \<Rightarrow> (Some ErrCacheMiss, d, c)
      | Some item \<Rightarrow>
          if now > ExpiresAt item
          then (Some ErrCacheMiss, d, c\<lparr>RedisCache.items := AList.delete key (RedisCache.items c)\<rparr>)
          else (None, (case d of IfacePtr _ \<Rightarrow> IfacePtr (Value item) | _ \<Rightarrow> d), c))"

definition RedisCache_Delete :: "string \<Rightarrow> RedisCache \<Rightarrow> cache_error option \<times> RedisCache" where
  "RedisCache_Delete key c = (None, c\<lparr>RedisCache.items := AList.delete key (RedisCache.items c)\<rparr>)"

definition RedisCache_Exists :: "int \<Rightarrow> string \<Rightarrow> RedisCache \<Rightarrow> bool \<times> cache_error option" where
  "RedisCache_Exists now key c =
     (case map_of (RedisCache.items c) key of
        None \<Rightarrow> (False, None)
      | Some item \<Rightarrow> if now > ExpiresAt item then (False, None) else (True, None))"

definition RedisCache_SetWithTTL ::
  "int \<Rightarrow> string \<Rightarrow> iface \<Rightarrow> int \<Rightarrow> RedisCache \<Rightarrow> cache_error option \<times> RedisCache" where
  "RedisCache_SetWithTTL now key v t c =
     (None, c\<lparr>RedisCache.items := AList.update key
        \<lparr>Value = v, ExpiresAt = now + t, LastUsed = 0, AccessCount = 0\<rparr>
        (RedisCache.items c)\<rparr>)"

definition RedisCache_GetTTL :: "int \<Rightarrow> string \<Rightarrow> RedisCache \<Rightarrow> int \<times> cache_error option" where
  "RedisCache_GetTTL now key c =
     (case map_of (RedisCache.items c) key of
        None \<Rightarrow> (0, Some ErrCacheMiss)
      | Some item \<Rightarrow>
          if now > ExpiresAt item then (0, Some ErrCacheMiss) else (ExpiresAt item - now, None))"

definition RedisCache_Increment ::
  "int \<Rightarrow> string \<Rightarrow> RedisCache \<Rightarrow> (64 word \<times> cache_error option) \<times> RedisCache" where
  "RedisCache_Increment now key c =
     (case map_of (RedisCache.items c) key of
        None \<Rightarrow>
          ((1, None), c\<lparr>RedisCache.items := AList.update key
              \<lparr>Value = Int64 1, ExpiresAt = now + RedisCache.ttl c, LastUsed = 0, AccessCount = 0\<rparr>
              (RedisCache.items c)\<rparr>)
      | Some item \<Rightarrow>
          if now > ExpiresAt item
          then ((1, None), c\<lparr>RedisCache.items := AList.update key
                  (item\<lparr>Value := Int64 1, ExpiresAt := now + RedisCache.ttl c\<rparr>)
                  (RedisCache.items c)\<rparr>)
          else (case Value item of
                  Int64 count \<Rightarrow>
                    ((count + 1, None), c\<lparr>RedisCache.items := AList.update key
                       (item\<lparr>Value := Int64 (count + 1)\<rparr>) (RedisCache.items c)\<rparr>)
                | _ \<Rightarrow>
                    ((1, None), c\<lparr>RedisCache.items := AList.update key
                       (item\<lparr>Value := Int64 1\<rparr>) (RedisCache.items c)\<rparr>)))"

definition RedisCache_IncrementWithTTL ::
  "int \<Rightarrow> string \<Rightarrow> int \<Rightarrow> RedisCache \<Rightarrow> (64 word \<times> cache_error option) \<times> RedisCache" where
  "RedisCache_IncrementWithTTL now key t c =
     (case map_of (RedisCache.items c) key of
        None \<Rightarrow>
          ((1, None), c\<lparr>RedisCache.items := AList.update key
              \<lparr>Value = Int64 1, ExpiresAt = now + t, LastUsed = 0, AccessCount = 0\<rparr>
              (RedisCache.items c)\<rparr>)
      | Some item \<Rightarrow>
          let v = (case Value item of Int64 count \<Rightarrow> count + 1 | _ \<Rightarrow> 1)
          in ((v, None), c\<lparr>RedisCache.items := AList.update key
                (item\<lparr>Value := Int64 v, ExpiresAt := now + t\<rparr>) (RedisCache.items c)\<rparr>))"

definition RedisCache_Close :: "RedisCache \<Rightarrow> go_panic + (cache_error option \<times> RedisCache)" where
  "RedisCache_Close c =
     (let c1 = c\<lparr>RedisCache.cleanupStopped := True\<rparr>
      in if RedisCache.stopChClosed c1 then Inl CloseOfClosedChannel
         else Inr (None, c1\<lparr>RedisCache.stopChClosed := True\<rparr>))"

subsection \<open>MemoryCache\<close>

record MemoryCache =
  items :: "(string \<times> CacheItem) list"
  maxSize :: int
  ttl :: int
  cleanupStopped :: bool
  stopChClosed :: bool

definition NewMemoryCache :: "int \<Rightarrow> int \<Rightarrow> MemoryCache" where
  "NewMemoryCache maxSz t =
     \<lparr>items = [], maxSize = maxSz, ttl = t, cleanupStopped = False, stopChClosed = False\<rparr>"

text \<open>
  \<^verbatim>\<open>func (c *MemoryCache) evictLRU()\<close>: the loop keeps \<^verbatim>\<open>(oldestKey, oldestTime)\<close>; the
  zero \<^verbatim>\<open>oldestTime\<close> is not read before the first assignment, since \<^verbatim>\<open>oldestKey\<close> is
  \<^verbatim>\<open>""\<close> until then.
\<close>

fun evictLRU_scan :: "(string \<times> CacheItem) list \<Rightarrow> string \<times> int \<Rightarrow> string \<times> int" where
  "evictLRU_scan [] acc = acc"
| "evictLRU_scan ((key, item) # rest) (oldestKey, oldestTime) =
     (if oldestKey = [] \<or> LastUsed item < oldestTime
      then evictLRU_scan rest (key, LastUsed item)
      else evictLRU_scan rest (oldestKey, oldestTime))"

definition evictLRU :: "(string \<times> CacheItem) list \<Rightarrow> (string \<times> CacheItem) list" where
  "evictLRU its =
     (let (oldestKey, oldestTime) = evictLRU_scan its ([], 0)
      in if oldestKey \<noteq> [] then AList.delete oldestKey its else its)"

definition MemoryCache_SetWithTTL ::
  "int \<Rightarrow> string \<Rightarrow> iface \<Rightarrow> int \<Rightarrow> MemoryCache \<Rightarrow> cache_error option \<times> MemoryCache" where
  "MemoryCache_SetWithTTL now key v t c =
     (let its = (if int (length (items c)) \<ge> maxSize c then evictLRU (items c) else items c)
      in (None, c\<lparr>items := AList.update key
                \<lparr>Value = v, ExpiresAt = now + t, LastUsed = now, AccessCount = 1\<rparr> its\<rparr>))"

definition MemoryCache_Set ::
  "int \<Rightarrow> string \<Rightarrow> iface \<Rightarrow> MemoryCache \<Rightarrow> cache_error option \<times> MemoryCache" where
  "MemoryCache_Set now key v c =
     (let its = (if int (length (items c)) \<ge> maxSize c then evictLRU (items c) else items c)
      in (None, c\<lparr>items := AList.update key
                \<lparr>Value = v, ExpiresAt = now + ttl c, LastUsed = now, AccessCount = 1\<rparr> its\<rparr>))"

definition MemoryCache_Get ::
  "int \<Rightarrow> string \<Rightarrow> dest \<Rightarrow> MemoryCache \<Rightarrow> cache_error option \<times> dest \<times> MemoryCache" where
  "MemoryCache_Get now key d c =
     (case map_of (items c) key of
        None \<Rightarrow> (Some ErrCacheMiss, d, c)
      | Some item \<Rightarrow>
          if now > ExpiresAt item
          then (Some ErrCacheMiss, d, c\<lparr>items := AList.delete key (items c)\<rparr>)
          else
            let item1 = item\<lparr>LastUsed := now, AccessCount := AccessCount item + 1\<rparr>;
                c1 = c\<lparr>items := AList.update key item1 (items c)\<rparr>
            in (None, (case d of IfacePtr _ \<Rightarrow> IfacePtr (Value item1) | _ \<Rightarrow> d), c1))"

definition MemoryCache_Delete :: "string \<Rightarrow> MemoryCache \<Rightarrow> cache_error option \<times> MemoryCache" where
  "MemoryCache_Delete key c = (None, c\<lparr>items := AList.delete key (items c)\<rparr>)"

definition MemoryCache_Exists :: "int \<Rightarrow> string \<Rightarrow> MemoryCache \<Rightarrow> bool \<times> cache_error option" where
  "MemoryCache_Exists now key c =
     (case map_of (items c) key of
        None \<Rightarrow> (False, None)
      | Some item \<Rightarrow> if now > ExpiresAt item then (False, None) else (True, None))"

definition MemoryCache_GetTTL :: "int \<Rightarrow> string \<Rightarrow> MemoryCache \<Rightarrow> int \<times> cache_error option" where
  "MemoryCache_GetTTL now key c =
     (case map_of (items c) key of
        None \<Rightarrow> (0, Some ErrCacheMiss)
      | Some item \<Rightarrow>
          if now > ExpiresAt item then (0, Some ErrCacheMiss) else (ExpiresAt item - now, None))"

definition MemoryCache_Increment ::
  "int \<Rightarrow> string \<Rightarrow> MemoryCache \<Rightarrow> (64 word \<times> cache_error option) \<times> MemoryCache" where
  "MemoryCache_Increment now key c =
     (case map_of (items c) key of
        None \<Rightarrow>
          ((1, None), c\<lparr>items := AList.update key
              \<lparr>Value = Int64 1, ExpiresAt = now + ttl c, LastUsed = now, AccessCount = 1\<rparr>
              (items c)\<rparr>)
      | Some item \<Rightarrow>
          if now > ExpiresAt item
          then ((1, None), c\<lparr>items := AList.update key
                  (item\<lparr>Value := Int64 1, ExpiresAt := now + ttl c, LastUsed := now,
                        AccessCount := 1\<rparr>) (items c)\<rparr>)
          else (case Value item of
                  Int64 count \<Rightarrow>
                    ((count + 1, None), c\<lparr>items := AList.update key
                       (item\<lparr>Value := Int64 (count + 1), LastUsed := now,
                             AccessCount := AccessCount item + 1\<rparr>) (items c)\<rparr>)
                | _ \<Rightarrow>
                    ((1, None), c\<lparr>items := AList.update key
                       (item\<lparr>Value := Int64 1, LastUsed := now,
                             AccessCount := AccessCount item + 1\<rparr>) (items c)\<rparr>)))"

definition MemoryCache_IncrementWithTTL ::
  "int \<Rightarrow> string \<Rightarrow> int \<Rightarrow> MemoryCache \<Rightarrow> (64 word \<times> cache_error option) \<times> MemoryCache" where
  "MemoryCache_IncrementWithTTL now key t c =
     (case map_of (items c) key of
        None \<Rightarrow>
          ((1, None), c\<lparr>items := AList.update key
              \<lparr>Value = Int64 1, ExpiresAt = now + t, LastUsed = now, AccessCount = 1\<rparr>
              (items c)\<rparr>)
      | Some item \<Rightarrow>
          let v = (case Value item of Int64 count \<Rightarrow> count + 1 | _ \<Rightarrow> 1)
          in ((v, None), c\<lparr>items := AList.update key
                (item\<lparr>Value := Int64 v, ExpiresAt := now + t, LastUsed := now,
                      AccessCount := AccessCount item + 1\<rparr>) (items c)\<rparr>))"

text \<open>
  \<^verbatim>\<open>func (c *MemoryCache) Close() error\<close>: \<^verbatim>\<open>close(c.stopCh)\<close> panics when the channel is
  closed already.
\<close>

definition MemoryCache_Close :: "MemoryCache \<Rightarrow> go_panic + (cache_error option \<times> MemoryCache)" where
  "MemoryCache_Close c =
     (let c1 = c\<lparr>cleanupStopped := True\<rparr>
      in if stopChClosed c1 then Inl CloseOfClosedChannel
         else Inr (None, c1\<lparr>stopChClosed := True\<rparr>))"

text \<open>A cache after its first \<^verbatim>\<open>Close\<close>: the ticker stopped and the stop channel closed.\<close>

definition MemoryCache_closed :: "MemoryCache \<Rightarrow> MemoryCache" where
  "MemoryCache_closed c = c\<lparr>cleanupStopped := True, stopChClosed := True\<rparr>"

definition RedisCache_closed :: "RedisCache \<Rightarrow> RedisCache" where
  "RedisCache_closed c = c\<lparr>RedisCache.cleanupStopped := True, RedisCache.stopChClosed := True\<rparr>"

section \<open>Frame processor (package processor)\<close>

text \<open>
  The \<^verbatim>\<open>cache.Cache\<close> interface with its two implementations; \<open>None\<close> below is a nil
  interface.
\<close>

datatype Cache = Memory MemoryCache | Redis RedisCache

definition Cache_Get ::
  "int \<Rightarrow> string \<Rightarrow> dest \<Rightarrow> Cache \<Rightarrow> cache_error option \<times> dest \<times> Cache" where
  "Cache_Get now key d ch =
     (case ch of
        Memory c \<Rightarrow> (case MemoryCache_Get now key d c of (e, d1, c1) \<Rightarrow> (e, d1, Memory c1))
      | Redis c \<Rightarrow> (case RedisCache_Get now key d c of (e, d1, c1) \<Rightarrow> (e, d1, Redis c1)))"

definition Cache_Set :: "int \<Rightarrow> string \<Rightarrow> iface \<Rightarrow> Cache \<Rightarrow> cache_error option \<times> Cache" where
  "Cache_Set now key v ch =
     (case ch of
        Memory c \<Rightarrow> (case MemoryCache_Set now key v c of (e, c1) \<Rightarrow> (e, Memory c1))
      | Redis c \<Rightarrow> (case RedisCache_Set now key v c of (e, c1) \<Rightarrow> (e, Redis c1)))"

definition Cache_SetWithTTL ::
  "int \<Rightarrow> string \<Rightarrow> iface \<Rightarrow> int \<Rightarrow> Cache \<Rightarrow> cache_error option \<times> Cache" where
  "Cache_SetWithTTL now key v t ch =
     (case ch of
        Memory c \<Rightarrow> (case MemoryCache_SetWithTTL now key v t c of (e, c1) \<Rightarrow> (e, Memory c1))
      | Redis c \<Rightarrow> (case RedisCache_SetWithTTL now key v t c of (e, c1) \<Rightarrow> (e, Redis c1)))"

definition Cache_Exists :: "int \<Rightarrow> string \<Rightarrow> Cache \<Rightarrow> bool \<times> cache_error option" where
  "Cache_Exists now key ch =
     (case ch of
        Memory c \<Rightarrow> MemoryCache_Exists now key c
      | Redis c \<Rightarrow> RedisCache_Exists now key c)"

definition Cache_items :: "Cache \<Rightarrow> (string \<times> CacheItem) list" where
  "Cache_items ch = (case ch of Memory c \<Rightarrow> items c | Redis c \<Rightarrow> RedisCache.items c)"

text \<open>
  The statistics without \<^verbatim>\<open>AverageLatency\<close> (a float64 moving average that nothing
  below reads); the counters are unbounded integers.
\<close>

record ProcessorStats =
  StartTime :: int
  TotalProcessed :: int
  SuccessfullyProcessed :: int
  FailedProcessed :: int
  QueueSize :: int
  ActiveWorkers :: int

record ProcessorConfig =
  MaxQueueSize :: int
  MaxWorkers :: int
  ProcessingTimeout :: int
  SkipSimilarFrames :: bool
  SimilarityThreshold :: float64

text \<open>
  The processor without its logger, its job table and its queue: what the queue and
  its workers do with one call of \<^verbatim>\<open>ProcessFrame\<close> is an argument of the call (see
  \<open>queue_event\<close>).
\<close>

record FrameProcessor =
  mlClient :: Client
  stats :: ProcessorStats
  config :: ProcessorConfig
  cache :: "Cache option"

text \<open>\<^verbatim>\<open>NewFrameProcessor\<close>; 0.95 is the float64 \<open>0x3FEE666666666666\<close>.\<close>

definition NewFrameProcessor :: "int \<Rightarrow> Client \<Rightarrow> Cache option \<Rightarrow> FrameProcessor" where
  "NewFrameProcessor now cl ch =
     \<lparr>mlClient = cl,
      stats = \<lparr>StartTime = now, TotalProcessed = 0, SuccessfullyProcessed = 0,
               FailedProcessed = 0, QueueSize = 0, ActiveWorkers = 4\<rparr>,
      config = \<lparr>MaxQueueSize = 100, MaxWorkers = 4, ProcessingTimeout = 30,
                SkipSimilarFrames = True, SimilarityThreshold = 0x3FEE666666666666\<rparr>,
      cache = ch\<rparr>"

text \<open>
  The MD5 digest in lower-case hexadecimal, \<^verbatim>\<open>fmt.Sprintf("%x", md5.Sum(data))\<close>, comes
  from Go's library: it is the argument \<open>md5hex\<close> of the functions that hash.
\<close>

definition bytes_of :: "string \<Rightarrow> byte list" where
  "bytes_of s = map (\<lambda>c. of_char c) s"

definition generateFrameHash :: "(byte list \<Rightarrow> string) \<Rightarrow> byte list \<Rightarrow> string" where
  "generateFrameHash md5hex imageData = md5hex imageData"

definition GenerateCacheKey :: "(byte list \<Rightarrow> string) \<Rightarrow> string list \<Rightarrow> string" where
  "GenerateCacheKey md5hex components = md5hex (concat (map bytes_of components))"

text \<open>\<^verbatim>\<open>func (fp *FrameProcessor) generateFeedback(analysis *models.AnalysisResult)\<close>\<close>

definition generateFeedback :: "AnalysisResult option \<Rightarrow> Feedback list" where
  "generateFeedback analysis =
     (case analysis of
        None \<Rightarrow> []
      | Some a \<Rightarrow>
          (if PostureScore a < 70 then
             [\<lparr>Type = ''warning'',
               Message = ''Improve your riding posture - keep your back straight and relax your shoulders'',
               Score = PostureScore a, Category = [], Priority = 0\<rparr>]
           else if PostureScore a > 85 then
             [\<lparr>Type = ''success'', Message = ''Excellent riding posture!'',
               Score = PostureScore a, Category = [], Priority = 0\<rparr>]
           else []) @
          (if LaneScore a < 60 then
             [\<lparr>Type = ''error'',
               Message = ''Maintain better lane position - you're drifting'',
               Score = LaneScore a, Category = [], Priority = 0\<rparr>]
           else []) @
          (if SpeedScore a < 65 then
             [\<lparr>Type = ''warning'', Message = ''Adjust your speed for current road conditions'',
               Score = SpeedScore a, Category = [], Priority = 0\<rparr>]
           else []) @
          (if OverallScore a > 80 then
             [\<lparr>Type = ''success'', Message = ''Great riding! Keep up the good work'',
               Score = OverallScore a, Category = [], Priority = 0\<rparr>]
           else []))"

text \<open>
  \<^verbatim>\<open>func (fp *FrameProcessor) processFrame(item *QueueItem)\<close>, the handler a worker runs:
  the result it sends on the item's channel. \<open>analysed\<close> is what \<^verbatim>\<open>AnalyzeFrame\<close>
  returned, a pointer that may be nil beside a nil error.
\<close>

definition processFrame_result :: "int \<Rightarrow> ml_error + AnalysisResult option \<Rightarrow> ProcessingResult" where
  "processFrame_result now analysed =
     (case analysed of
        Inl err \<Rightarrow> \<lparr>Analysis = None, Error = Some (MLError err)\<rparr>
      | Inr (Some analysis) \<Rightarrow>
          \<lparr>Analysis = Some (analysis\<lparr>Feedback := generateFeedback (Some analysis)\<rparr>),
           Error = None\<rparr>
      | Inr None \<Rightarrow>
          \<lparr>Analysis = Some (zeroAnalysisResult
              \<lparr>OverallScore := 50, PostureScore := 50, LaneScore := 50, SpeedScore := 50,
               Feedback := [], AnalysisResult.Timestamp := now div 1000000000\<rparr>),
           Error = None\<rparr>)"

definition processFrame ::
  "(nat \<Rightarrow> attempt_outcome) \<Rightarrow> int \<Rightarrow> FrameRequest \<Rightarrow> Client \<Rightarrow> ProcessingResult \<times> Client" where
  "processFrame net now request cl =
     (case AnalyzeFrame net request cl of
        (r, sleeps, cl1) \<Rightarrow> (processFrame_result now (map_sum id Some r), cl1))"

text \<open>\<^verbatim>\<open>func (fp *FrameProcessor) getCachedResult() *models.AnalysisResult\<close>\<close>

definition getCachedResult :: "int \<Rightarrow> AnalysisResult" where
  "getCachedResult now =
     zeroAnalysisResult
       \<lparr>OverallScore := 75, PostureScore := 80, LaneScore := 70, SpeedScore := 75,
        AnalysisResult.Timestamp := now div 1000000000,
        Feedback := [\<lparr>Type = ''info'', Message = ''Using cached result for similar frame'',
                      Score = 75, Category = [], Priority = 0\<rparr>]\<rparr>"

text \<open>
  \<^verbatim>\<open>func (fp *FrameProcessor) isSimilarFrame(imageData []byte) bool\<close>. The goroutine that
  marks the hash as seen is run at once. With a nil cache the call of
  \<^verbatim>\<open>fp.cache.Exists\<close> panics.
\<close>

definition isSimilarFrame ::
  "(byte list \<Rightarrow> string) \<Rightarrow> int \<Rightarrow> byte list \<Rightarrow> FrameProcessor \<Rightarrow>
   go_panic + (bool \<times> FrameProcessor)" where
  "isSimilarFrame md5hex now imageData fp =
     (if \<not> SkipSimilarFrames (config fp) then Inr (False, fp)
      else
        let hash = generateFrameHash md5hex imageData;
            similarityKey = GenerateCacheKey md5hex [''similarity'', hash]
        in case cache fp of
             None \<Rightarrow> Inl NilPointerDereference
           | Some ch \<Rightarrow>
               (case Cache_Exists now similarityKey ch of
                  (exists, Some err) \<Rightarrow> Inr (False, fp)
                | (True, None) \<Rightarrow> Inr (True, fp)
                | (False, None) \<Rightarrow>
                    Inr (False, fp\<lparr>cache := Some (snd (Cache_SetWithTTL now similarityKey
                                      (Bool True) 300000000000 ch))\<rparr>)))"

text \<open>
  \<^verbatim>\<open>func (fp *FrameProcessor) calculatePriority(request *models.FrameRequest) int\<close>;
  Go's \<^verbatim>\<open>/\<close> truncates towards zero.
\<close>

definition go_quot :: "int \<Rightarrow> int \<Rightarrow> int" where
  "go_quot a b = sgn a * sgn b * (\<bar>a\<bar> div \<bar>b\<bar>)"

definition calculatePriority :: "int \<Rightarrow> FrameRequest \<Rightarrow> int" where
  "calculatePriority now request =
     (let priority = (if ClientID request \<noteq> [] then 2 else 1);
          age = now - go_quot (FrameRequest.Timestamp request) 1000 * 1000000000
      in if age < 1000000000 then priority + 2
         else if age < 5000000000 then priority + 1
         else priority)"

text \<open>
  What the queue and its workers do with the item of one call: \<^verbatim>\<open>Enqueue\<close> refuses it;
  no result arrives within \<^verbatim>\<open>ProcessingTimeout\<close> seconds; or a worker runs the handler
  and its result arrives in time. \<open>Delivered t\<close> carries the clock reading \<open>t\<close> at which
  the worker finishes and the result is stored in the cache.
\<close>

datatype queue_event = Rejected | TimedOut | Delivered int

text \<open>
  The part of \<^verbatim>\<open>ProcessFrame\<close> after the cache lookup has missed (or there is no cache):
  the similarity check, the queue and the wait for the result. The goroutine that
  stores the result in the cache is run before the call returns. When the wait times
  out, the worker's later calls of the inference service are not part of the call.
  The result is the pair \<^verbatim>\<open>(*models.AnalysisResult, error)\<close> as a sum, with \<open>None\<close> for a
  nil pointer.
\<close>

definition ProcessFrame_miss ::
  "(byte list \<Rightarrow> string) \<Rightarrow> (nat \<Rightarrow> attempt_outcome) \<Rightarrow> queue_event \<Rightarrow> int \<Rightarrow> FrameRequest \<Rightarrow>
   string \<Rightarrow> FrameProcessor \<Rightarrow>
   go_panic + ((processing_error + AnalysisResult option) \<times> FrameProcessor)" where
  "ProcessFrame_miss md5hex net ev now request cacheKey fp =
     (case (if SkipSimilarFrames (config fp)
            then isSimilarFrame md5hex now (FrameRequest.ImageData request) fp
            else Inr (False, fp)) of
        Inl p \<Rightarrow> Inl p
      | Inr (True, fp1) \<Rightarrow> Inr (Inr (Some (getCachedResult now)), fp1)
      | Inr (False, fp1) \<Rightarrow>
          (case ev of
             Rejected \<Rightarrow>
               Inr (Inl QueueFull,
                    fp1\<lparr>stats := (stats fp1)\<lparr>FailedProcessed :=
                           FailedProcessed (stats fp1) + 1\<rparr>\<rparr>)
           | TimedOut \<Rightarrow>
               Inr (Inl ProcessingTimeout_error,
                    fp1\<lparr>stats := (stats fp1)\<lparr>FailedProcessed :=
                           FailedProcessed (stats fp1) + 1\<rparr>\<rparr>)
           | Delivered t \<Rightarrow>
               (case processFrame net t request (mlClient fp1) of
                  (result, cl1) \<Rightarrow>
                    (case Error result of
                       Some err \<Rightarrow>
                         Inr (Inl err,
                              fp1\<lparr>mlClient := cl1,
                                  stats := (stats fp1)\<lparr>FailedProcessed :=
                                     FailedProcessed (stats fp1) + 1\<rparr>\<rparr>)
                     | None \<Rightarrow>
                         (let fp2 = fp1\<lparr>mlClient := cl1,
                                       stats := (stats fp1)\<lparr>SuccessfullyProcessed :=
                                          SuccessfullyProcessed (stats fp1) + 1\<rparr>\<rparr>
                          in case (cache fp2, Analysis result) of
                               (Some ch, Some analysis) \<Rightarrow>
                                 Inr (Inr (Some analysis),
                                      fp2\<lparr>cache := Some (snd (Cache_Set t cacheKey
                                                         (Result analysis) ch))\<rparr>)
                             | (_, a) \<Rightarrow> Inr (Inr a, fp2))))))"

text \<open>
  The content of the variable \<^verbatim>\<open>cachedResult\<close> after \<^verbatim>\<open>Get\<close> was given its address.
\<close>

definition cachedResult_of :: "dest \<Rightarrow> AnalysisResult" where
  "cachedResult_of d = (case d of ResultPtr r \<Rightarrow> r | _ \<Rightarrow> zeroAnalysisResult)"

text \<open>\<^verbatim>\<open>func (fp *FrameProcessor) ProcessFrame(request *models.FrameRequest)\<close>\<close>

definition ProcessFrame ::
  "(byte list \<Rightarrow> string) \<Rightarrow> (nat \<Rightarrow> attempt_outcome) \<Rightarrow> queue_event \<Rightarrow> int \<Rightarrow> FrameRequest \<Rightarrow>
   FrameProcessor \<Rightarrow>
   go_panic + ((processing_error + AnalysisResult option) \<times> FrameProcessor)" where
  "ProcessFrame md5hex net ev now request fp =
     (let fp1 = fp\<lparr>stats := (stats fp)\<lparr>TotalProcessed := TotalProcessed (stats fp) + 1\<rparr>\<rparr>;
          frameHash = generateFrameHash md5hex (FrameRequest.ImageData request);
          cacheKey = GenerateCacheKey md5hex [''frame'', frameHash, ClientID request]
      in case cache fp1 of
           None \<Rightarrow> ProcessFrame_miss md5hex net ev now request cacheKey fp1
         | Some ch \<Rightarrow>
             (case Cache_Get now cacheKey (ResultPtr zeroAnalysisResult) ch of
                (None, d, ch1) \<Rightarrow>
                  Inr (Inr (Some (cachedResult_of d)),
                       fp1\<lparr>cache := Some ch1,
                           stats := (stats fp1)\<lparr>SuccessfullyProcessed :=
                                       SuccessfullyProcessed (stats fp1) + 1\<rparr>\<rparr>)
              | (Some err, d, ch1) \<Rightarrow>
                  ProcessFrame_miss md5hex net ev now request cacheKey
                    (fp1\<lparr>cache := Some ch1\<rparr>)))"

text \<open>
  A stand-in for the digest in examples: the bytes themselves, read as characters.
  Like the digest is taken to be, it gives different keys for different inputs.
\<close>

definition plain_digest :: "byte list \<Rightarrow> string" where
  "plain_digest bs = map (\<lambda>b. char_of (unat b)) bs"


section \<open>Inputs for the examples\<close>

text \<open>
  A response of the inference service with the four scores given, no detections and no
  keypoints; a request of client \<open>A\<close> with three image bytes.
\<close>

definition response_with_scores :: "int \<Rightarrow> int \<Rightarrow> int \<Rightarrow> int \<Rightarrow> AnalysisResponse" where
  "response_with_scores overall posture lane speed =
     \<lparr>AnalysisResponse.OverallScore = overall, AnalysisResponse.PostureScore = posture,
      AnalysisResponse.LaneScore = lane, AnalysisResponse.SpeedScore = speed,
      Detections = [], PoseKeypoints = [],
      SceneAnalysis = \<lparr>RoadType = ''highway'', LaneCount = 2, WeatherCondition = ''clear'',
                        TimeOfDay = ''day'', TrafficDensity = ''low'', RoadCondition = ''dry'',
                        SpeedLimit = 80, Visibility = 0\<rparr>,
      AnalysisResponse.ProcessingTime = 0, AnalysisResponse.ModelVersion = ''v1''\<rparr>"

definition frame_of_B :: FrameRequest where
  "frame_of_B =
     \<lparr>FrameRequest.ImageData = [1, 2, 3], FrameRequest.Timestamp = 6000, ClientID = ''B'',
      FrameRequest.Metadata = []\<rparr>"

definition frame_of_A :: FrameRequest where
  "frame_of_A =
     \<lparr>FrameRequest.ImageData = [1, 2, 3], FrameRequest.Timestamp = 0, ClientID = ''A'',
      FrameRequest.Metadata = []\<rparr>"

text \<open>
  The processor \<^verbatim>\<open>main\<close> builds: the client of \<^verbatim>\<open>NewClient\<close> and a memory cache of 1000
  entries with a time to live of five minutes.
\<close>

definition fresh_processor :: FrameProcessor where
  "fresh_processor =
     NewFrameProcessor 0 (NewClient ''http://localhost:5000'')
       (Some (Memory (NewMemoryCache 1000 300000000000)))"

text \<open>
  The inference service that answers every call with status 200 and the scores given,
  five seconds after the origin; the result the worker makes of the answer
  (90, 90, 90, 90); and the processor after \<open>frame_of_A\<close> has been processed once with
  that answer.
\<close>

definition service_scoring :: "int \<Rightarrow> int \<Rightarrow> int \<Rightarrow> int \<Rightarrow> nat \<Rightarrow> attempt_outcome" where
  "service_scoring overall posture lane speed n =
     Response 200 (Some (response_with_scores overall posture lane speed)) 5000000000"

definition result_90 :: AnalysisResult where
  "result_90 =
     \<lparr>AnalysisResult.OverallScore = 90, AnalysisResult.PostureScore = 90,
      AnalysisResult.LaneScore = 90, AnalysisResult.SpeedScore = 90,
      AnalysisResult.Annotations = [],
      AnalysisResult.Feedback =
        [\<lparr>Type = ''success'', Message = ''Excellent riding posture!'', Score = 90,
          Category = [], Priority = 0\<rparr>,
         \<lparr>Type = ''success'', Message = ''Great riding! Keep up the good work'', Score = 90,
          Category = [], Priority = 0\<rparr>],
      AnalysisResult.Metadata =
        [(''road_type'', AString ''highway''), (''lane_count'', AInt 2),
         (''weather_condition'', AString ''clear''), (''time_of_day'', AString ''day''),
         (''traffic_density'', AString ''low''), (''road_condition'', AString ''dry''),
         (''speed_limit'', AInt 80), (''visibility'', AFloat 0)],
      AnalysisResult.ProcessingTime = 0, AnalysisResult.ModelVersion = ''v1'',
      AnalysisResult.Timestamp = 5\<rparr>"

definition processor_after_A :: FrameProcessor where
  "processor_after_A =
     fresh_processor
       \<lparr>mlClient := (mlClient fresh_processor)\<lparr>requests := 1\<rparr>,
        stats := (stats fresh_processor)\<lparr>TotalProcessed := 1, SuccessfullyProcessed := 1\<rparr>,
        cache := Some (Memory
          ((NewMemoryCache 1000 300000000000)
             \<lparr>items :=
                [(plain_digest (bytes_of ''similarity'' @ bytes_of (plain_digest [1, 2, 3])),
                  \<lparr>Value = Bool True, ExpiresAt = 300000000000, LastUsed = 0,
                    AccessCount = 1\<rparr>),
                 (plain_digest (bytes_of ''frame'' @ bytes_of (plain_digest [1, 2, 3]) @
                                bytes_of ''A''),
                  \<lparr>Value = Result result_90, ExpiresAt = 305000000000,
                    LastUsed = 5000000000, AccessCount = 1\<rparr>)]\<rparr>))\<rparr>"

text \<open>What a call of \<^verbatim>\<open>ProcessFrame\<close> returned as its result, when it returned one.\<close>

definition returned_result ::
  "go_panic + ((processing_error + AnalysisResult option) \<times> FrameProcessor) \<Rightarrow>
   AnalysisResult option" where
  "returned_result out = (case out of Inr (Inr r, fp) \<Rightarrow> r | _ \<Rightarrow> None)"

section \<open>Rate limiter (server/middleware/auth.go)\<close>

record ClientBucket =
  tokens :: int
  lastUpdate :: int

record RateLimiter =
  clients :: "string \<rightharpoonup> ClientBucket"
  defaultRPS :: int
  burst :: int

text \<open>
  \<^verbatim>\<open>int(elapsed.Seconds() * float64(rps))\<close>: the product of the elapsed seconds and the
  rate, converted to an integer by truncation towards zero. The float64 product is
  taken exactly here: \<open>elapsed\<close> is in nanoseconds, so the product is
  \<open>elapsed * rps / 10^9\<close>.
\<close>

definition tokensToAdd :: "int \<Rightarrow> int \<Rightarrow> int" where
  "tokensToAdd elapsed rps =
     (if 0 \<le> elapsed * rps then (elapsed * rps) div 1000000000
      else - ((- (elapsed * rps)) div 1000000000))"

text \<open>\<^verbatim>\<open>func (cb *ClientBucket) allowRequest(rps, burst int) bool\<close>\<close>

definition allowRequest :: "int \<Rightarrow> int \<Rightarrow> int \<Rightarrow> ClientBucket \<Rightarrow> bool \<times> ClientBucket" where
  "allowRequest rps brst now cb =
     (let elapsed = now - lastUpdate cb;
          cb1 = cb\<lparr>tokens := tokens cb + tokensToAdd elapsed rps\<rparr>;
          cb2 = (if tokens cb1 > brst then cb1\<lparr>tokens := brst\<rparr> else cb1);
          cb3 = cb2\<lparr>lastUpdate := now\<rparr>
      in if tokens cb3 > 0 then (True, cb3\<lparr>tokens := tokens cb3 - 1\<rparr>)
         else (False, cb3))"

text \<open>\<^verbatim>\<open>func (rl *RateLimiter) allowRequestWithConfig(clientIP string, rps, burst int) bool\<close>\<close>

definition allowRequestWithConfig ::
  "string \<Rightarrow> int \<Rightarrow> int \<Rightarrow> int \<Rightarrow> RateLimiter \<Rightarrow> bool \<times> RateLimiter" where
  "allowRequestWithConfig clientIP rps brst now rl =
     (let bucket = (case clients rl clientIP of
                      None \<Rightarrow> \<lparr>tokens = brst, lastUpdate = now\<rparr>
                    | Some b \<Rightarrow> b);
          (ok, bucket') = allowRequest rps brst now bucket
      in (ok, rl\<lparr>clients := (clients rl)(clientIP \<mapsto> bucket')\<rparr>))"

text \<open>\<^verbatim>\<open>func (rl *RateLimiter) allowRequest(clientIP string) bool\<close>\<close>

definition RL_allowRequest :: "string \<Rightarrow> int \<Rightarrow> RateLimiter \<Rightarrow> bool \<times> RateLimiter" where
  "RL_allowRequest clientIP now rl =
     allowRequestWithConfig clientIP (defaultRPS rl) (burst rl) now rl"

text \<open>
  A client that calls at the clock readings \<open>ts\<close>, one call after the other, with the
  same \<open>(rps, burst)\<close>: the answers in order, and the limiter afterwards.
\<close>

fun allowCalls ::
  "string \<Rightarrow> int \<Rightarrow> int \<Rightarrow> int list \<Rightarrow> RateLimiter \<Rightarrow> bool list \<times> RateLimiter" where
  "allowCalls clientIP rps brst [] rl = ([], rl)"
| "allowCalls clientIP rps brst (t # ts) rl =
     (let (ok, rl1) = allowRequestWithConfig clientIP rps brst t rl;
          (oks, rl2) = allowCalls clientIP rps brst ts rl1
      in (ok # oks, rl2))"

text \<open>
  The calls \<open>ts\<close> follow a call at \<open>t0\<close> in time order, each less than \<open>1/rps\<close> seconds
  (\<open>10^9 / rps\<close> nanoseconds) after the one before.
\<close>

fun closelySpaced :: "int \<Rightarrow> int \<Rightarrow> int list \<Rightarrow> bool" where
  "closelySpaced rps t0 [] = True"
| "closelySpaced rps t0 (t # ts) =
     (t0 \<le> t \<and> (t - t0) * rps < 1000000000 \<and> closelySpaced rps t ts)"

section \<open>Data URLs (server/handlers)\<close>

subsection \<open>The standard base64 encoding of Go's library\<close>

text \<open>
  \<^verbatim>\<open>base64.StdEncoding\<close> is part of Go's library, not of the repository. It is modelled
  after RFC 4648, section 4, and the documented behaviour of \<^verbatim>\<open>encoding/base64\<close>: the
  alphabet below, padding with \<open>=\<close>, and a decoder that ignores carriage returns and line
  feeds, demands padding to a multiple of four characters, accepts padding only at the
  end, and does not check the unused low bits of a padded group. A group of three bytes
  is the number \<open>a * 2^16 + b * 2^8 + c\<close>, cut into four digits of six bits.
\<close>

definition encodeStd :: string where
  "encodeStd = ''ABCDEFGHIJKLMNOPQRSTUVWXYZabcdefghijklmnopqrstuvwxyz0123456789+/''"

definition enc6 :: "nat \<Rightarrow> char" where
  "enc6 n = encodeStd ! (n mod 64)"

fun index_of :: "'a \<Rightarrow> 'a list \<Rightarrow> nat option" where
  "index_of c [] = None"
| "index_of c (x # xs) = (if c = x then Some 0 else map_option Suc (index_of c xs))"

definition dec6 :: "char \<Rightarrow> nat option" where
  "dec6 c = index_of c encodeStd"

fun EncodeToString :: "byte list \<Rightarrow> string" where
  "EncodeToString (a # b # c # rest) =
     (let val = unat a * 65536 + unat b * 256 + unat c
      in [enc6 (val div 262144), enc6 (val div 4096), enc6 (val div 64), enc6 val])
     @ EncodeToString rest"
| "EncodeToString [a, b] =
     (let val = unat a * 65536 + unat b * 256
      in [enc6 (val div 262144), enc6 (val div 4096), enc6 (val div 64), CHR ''=''])"
| "EncodeToString [a] =
     (let val = unat a * 65536
      in [enc6 (val div 262144), enc6 (val div 4096), CHR ''='', CHR ''=''])"
| "EncodeToString [] = []"

datatype dataurl_error = ErrBadHandshake | InvalidDataURLFormat | CorruptInputError

text \<open>The bytes of a group of four digits, of three digits and of two digits.\<close>

definition bytes3 :: "nat \<Rightarrow> nat \<Rightarrow> nat \<Rightarrow> nat \<Rightarrow> byte list" where
  "bytes3 s0 s1 s2 s3 =
     (let val = s0 * 262144 + s1 * 4096 + s2 * 64 + s3
      in [of_nat (val div 65536), of_nat (val div 256), of_nat val])"

definition bytes2 :: "nat \<Rightarrow> nat \<Rightarrow> nat \<Rightarrow> byte list" where
  "bytes2 s0 s1 s2 =
     (let val = s0 * 262144 + s1 * 4096 + s2 * 64
      in [of_nat (val div 65536), of_nat (val div 256)])"

definition bytes1 :: "nat \<Rightarrow> nat \<Rightarrow> byte list" where
  "bytes1 s0 s1 = (let val = s0 * 262144 + s1 * 4096 in [of_nat (val div 65536)])"

text \<open>
  The decoder on an input without line breaks, four characters at a time. Padding is
  accepted in the last group only, as \<open>xx==\<close> or \<open>xxx=\<close>.
\<close>

fun decode_quanta :: "string \<Rightarrow> dataurl_error + byte list" where
  "decode_quanta [] = Inr []"
| "decode_quanta [c0, c1, c2, c3] =
     (case (dec6 c0, dec6 c1) of
        (Some s0, Some s1) \<Rightarrow>
          (if c2 = CHR ''='' then
             (if c3 = CHR ''='' then Inr (bytes1 s0 s1) else Inl CorruptInputError)
           else
             (case dec6 c2 of
                None \<Rightarrow> Inl CorruptInputError
              | Some s2 \<Rightarrow>
                  (if c3 = CHR ''='' then Inr (bytes2 s0 s1 s2)
                   else (case dec6 c3 of
                           None \<Rightarrow> Inl CorruptInputError
                         | Some s3 \<Rightarrow> Inr (bytes3 s0 s1 s2 s3)))))
      | _ \<Rightarrow> Inl CorruptInputError)"
| "decode_quanta (c0 # c1 # c2 # c3 # rest) =
     (case (dec6 c0, dec6 c1, dec6 c2, dec6 c3) of
        (Some s0, Some s1, Some s2, Some s3) \<Rightarrow>
          (case decode_quanta rest of
             Inl e \<Rightarrow> Inl e
           | Inr bs \<Rightarrow> Inr (bytes3 s0 s1 s2 s3 @ bs))
      | _ \<Rightarrow> Inl CorruptInputError)"
| "decode_quanta cs = Inl CorruptInputError"

text \<open>\<^verbatim>\<open>base64.StdEncoding.DecodeString\<close>\<close>

definition DecodeString :: "string \<Rightarrow> dataurl_error + byte list" where
  "DecodeString s = decode_quanta (filter (\<lambda>c. c \<noteq> CHR 0x0D \<and> c \<noteq> CHR 0x0A) s)"

subsection \<open>The handlers\<close>

text \<open>\<^verbatim>\<open>strings.Split(s, ",")\<close> for a separator of one character: never an empty list.\<close>

fun split_on :: "char \<Rightarrow> string \<Rightarrow> string list" where
  "split_on sep [] = [[]]"
| "split_on sep (x # xs) =
     (if x = sep then [] # split_on sep xs
      else (case split_on sep xs of
              p # ps \<Rightarrow> (x # p) # ps
            | [] \<Rightarrow> [[x]]))"

text \<open>
  \<^verbatim>\<open>func (h *WebSocketHandler) extractImageData(dataURL string) ([]byte, error)\<close>
  (server/handlers/websocket.go)
\<close>

definition WebSocketHandler_extractImageData :: "string \<Rightarrow> dataurl_error + byte list" where
  "WebSocketHandler_extractImageData dataURL =
     (if CHR '','' \<notin> set dataURL then Inl ErrBadHandshake
      else
        let parts = split_on CHR '','' dataURL
        in if length parts \<noteq> 2 then Inl ErrBadHandshake
           else (case DecodeString (parts ! 1) of
                   Inl err \<Rightarrow> Inl err
                 | Inr imageData \<Rightarrow> Inr imageData))"

text \<open>
  \<^verbatim>\<open>func (h *StreamHandler) extractImageData(dataURL string) ([]byte, error)\<close>
  (the stream handler's file)
\<close>

definition StreamHandler_extractImageData :: "string \<Rightarrow> dataurl_error + byte list" where
  "StreamHandler_extractImageData dataURL =
     (if CHR '','' \<notin> set dataURL then Inl InvalidDataURLFormat
      else
        let parts = split_on CHR '','' dataURL
        in if length parts \<noteq> 2 then Inl InvalidDataURLFormat
           else (case DecodeString (parts ! 1) of
                   Inl err \<Rightarrow> Inl err
                 | Inr imageData \<Rightarrow> Inr imageData))"

text \<open>The part of a data URL after its first comma.\<close>

definition payload_of :: "string \<Rightarrow> string" where
  "payload_of dataURL = drop 1 (dropWhile (\<lambda>c. c \<noteq> CHR '','') dataURL)"

chapter \<open>Properties\<close>

section \<open>Cache\<close>

lemma MemoryCache_Get_hit:
  "map_of (items c) key = Some item \<Longrightarrow> \<not> now > ExpiresAt item \<Longrightarrow>
   MemoryCache_Get now key d c =
     (None, (case d of IfacePtr old \<Rightarrow> IfacePtr (Value item) | _ \<Rightarrow> d),
      c\<lparr>items := AList.update key (item\<lparr>LastUsed := now, AccessCount := AccessCount item + 1\<rparr>) (items c)\<rparr>)"
  by (simp add: MemoryCache_Get_def Let_def split: dest.splits)

lemma RedisCache_Get_hit:
  "map_of (RedisCache.items c) key = Some item \<Longrightarrow> \<not> now > ExpiresAt item \<Longrightarrow>
   RedisCache_Get now key d c =
     (None, (case d of IfacePtr old \<Rightarrow> IfacePtr (Value item) | _ \<Rightarrow> d), c)"
  by (simp add: RedisCache_Get_def)

text \<open>
  Claim C9. \<^verbatim>\<open>Get\<close> on a key that is present and not expired returns a nil error, in
  both caches; it stores the value through \<open>dest\<close> only when \<open>dest\<close> is a
  \<^verbatim>\<open>*interface{}\<close>, and leaves every other destination as it was, the
  \<^verbatim>\<open>*models.AnalysisResult\<close> of the frame processor among them.
\<close>

theorem Get_writes_only_through_interface_pointer:
  "(\<forall>item. map_of (items c) key = Some item \<and> \<not> now > ExpiresAt item \<longrightarrow>
      fst (MemoryCache_Get now key d c) = None \<and>
      fst (snd (MemoryCache_Get now key d c)) =
        (case d of IfacePtr old \<Rightarrow> IfacePtr (Value item) | _ \<Rightarrow> d) \<and>
      fst (snd (MemoryCache_Get now key (ResultPtr r) c)) = ResultPtr r)
   \<and> (\<forall>item. map_of (RedisCache.items rc) key = Some item \<and> \<not> now > ExpiresAt item \<longrightarrow>
      fst (RedisCache_Get now key d rc) = None \<and>
      fst (snd (RedisCache_Get now key d rc)) =
        (case d of IfacePtr old \<Rightarrow> IfacePtr (Value item) | _ \<Rightarrow> d) \<and>
      fst (snd (RedisCache_Get now key (ResultPtr r) rc)) = ResultPtr r)"
  by (simp add: MemoryCache_Get_hit RedisCache_Get_hit)

theorem Get_writes_only_through_interface_pointer_witness:
  "map_of (items ((NewMemoryCache 1000 300) \<lparr>items := [(''k'',
        \<lparr>Value = Result result_90, ExpiresAt = 10, LastUsed = 0, AccessCount = 1\<rparr>)]\<rparr>)) ''k''
     = Some \<lparr>Value = Result result_90, ExpiresAt = 10, LastUsed = 0, AccessCount = 1\<rparr> \<and>
   \<not> 5 > ExpiresAt \<lparr>Value = Result result_90, ExpiresAt = 10, LastUsed = 0, AccessCount = 1\<rparr> \<and>
   fst (MemoryCache_Get 5 ''k'' (IfacePtr Nil) ((NewMemoryCache 1000 300) \<lparr>items := [(''k'',
        \<lparr>Value = Result result_90, ExpiresAt = 10, LastUsed = 0, AccessCount = 1\<rparr>)]\<rparr>)) = None \<and>
   fst (snd (MemoryCache_Get 5 ''k'' (IfacePtr Nil) ((NewMemoryCache 1000 300) \<lparr>items := [(''k'',
        \<lparr>Value = Result result_90, ExpiresAt = 10, LastUsed = 0, AccessCount = 1\<rparr>)]\<rparr>)))
     = IfacePtr (Result result_90) \<and>
   fst (snd (MemoryCache_Get 5 ''k'' (ResultPtr zeroAnalysisResult) ((NewMemoryCache 1000 300) \<lparr>items := [(''k'',
        \<lparr>Value = Result result_90, ExpiresAt = 10, LastUsed = 0, AccessCount = 1\<rparr>)]\<rparr>)))
     = ResultPtr zeroAnalysisResult \<and>
   fst (RedisCache_Get 5 ''k'' (ResultPtr zeroAnalysisResult) ((NewRedisCache 300) \<lparr>RedisCache.items := [(''k'',
        \<lparr>Value = Result result_90, ExpiresAt = 10, LastUsed = 0, AccessCount = 0\<rparr>)]\<rparr>)) = None \<and>
   fst (snd (RedisCache_Get 5 ''k'' (ResultPtr zeroAnalysisResult) ((NewRedisCache 300) \<lparr>RedisCache.items := [(''k'',
        \<lparr>Value = Result result_90, ExpiresAt = 10, LastUsed = 0, AccessCount = 0\<rparr>)]\<rparr>)))
     = ResultPtr zeroAnalysisResult"
proof -
  let ?item = "\<lparr>Value = Result result_90, ExpiresAt = 10, LastUsed = 0, AccessCount = 1\<rparr>"
  let ?ritem = "\<lparr>Value = Result result_90, ExpiresAt = 10, LastUsed = 0, AccessCount = 0\<rparr>"
  let ?c = "(NewMemoryCache 1000 300) \<lparr>items := [(''k'', ?item)]\<rparr>"
  let ?rc = "(NewRedisCache 300) \<lparr>RedisCache.items := [(''k'', ?ritem)]\<rparr>"
  have h1: "map_of (items ?c) ''k'' = Some ?item" by simp
  have h2: "\<not> 5 > ExpiresAt ?item" by simp
  have h3: "map_of (RedisCache.items ?rc) ''k'' = Some ?ritem" by simp
  have h4: "\<not> 5 > ExpiresAt ?ritem" by simp
  note a = Get_writes_only_through_interface_pointer
    [of ?c "''k''" 5 "IfacePtr Nil" zeroAnalysisResult ?rc]
  from a h1 h2 have m: "fst (MemoryCache_Get 5 ''k'' (IfacePtr Nil) ?c) = None \<and>
      fst (snd (MemoryCache_Get 5 ''k'' (IfacePtr Nil) ?c)) = IfacePtr (Result result_90) \<and>
      fst (snd (MemoryCache_Get 5 ''k'' (ResultPtr zeroAnalysisResult) ?c)) = ResultPtr zeroAnalysisResult"
    by simp
  note b = Get_writes_only_through_interface_pointer
    [of ?c "''k''" 5 "ResultPtr zeroAnalysisResult" zeroAnalysisResult ?rc]
  from b h3 h4 have r: "fst (RedisCache_Get 5 ''k'' (ResultPtr zeroAnalysisResult) ?rc) = None \<and>
      fst (snd (RedisCache_Get 5 ''k'' (ResultPtr zeroAnalysisResult) ?rc)) = ResultPtr zeroAnalysisResult"
    by simp
  from h1 h2 m r show ?thesis by blast
qed

lemma MemoryCache_ops_after_close:
  "MemoryCache_Set now key v (MemoryCache_closed c) =
     (fst (MemoryCache_Set now key v c), MemoryCache_closed (snd (MemoryCache_Set now key v c)))"
  "MemoryCache_SetWithTTL now key v t (MemoryCache_closed c) =
     (fst (MemoryCache_SetWithTTL now key v t c),
      MemoryCache_closed (snd (MemoryCache_SetWithTTL now key v t c)))"
  "MemoryCache_Get now key d (MemoryCache_closed c) =
     (fst (MemoryCache_Get now key d c), fst (snd (MemoryCache_Get now key d c)),
      MemoryCache_closed (snd (snd (MemoryCache_Get now key d c))))"
  "MemoryCache_Delete key (MemoryCache_closed c) =
     (fst (MemoryCache_Delete key c), MemoryCache_closed (snd (MemoryCache_Delete key c)))"
  "MemoryCache_Exists now key (MemoryCache_closed c) = MemoryCache_Exists now key c"
  "MemoryCache_GetTTL now key (MemoryCache_closed c) = MemoryCache_GetTTL now key c"
  "MemoryCache_Increment now key (MemoryCache_closed c) =
     (fst (MemoryCache_Increment now key c), MemoryCache_closed (snd (MemoryCache_Increment now key c)))"
  "MemoryCache_IncrementWithTTL now key t (MemoryCache_closed c) =
     (fst (MemoryCache_IncrementWithTTL now key t c),
      MemoryCache_closed (snd (MemoryCache_IncrementWithTTL now key t c)))"
  by (simp_all add: MemoryCache_closed_def MemoryCache_Set_def MemoryCache_SetWithTTL_def
      MemoryCache_Get_def MemoryCache_Delete_def MemoryCache_Exists_def MemoryCache_GetTTL_def
      MemoryCache_Increment_def MemoryCache_IncrementWithTTL_def Let_def
      split: option.splits iface.splits)

lemma RedisCache_ops_after_close:
  "RedisCache_Set now key v (RedisCache_closed c) =
     (fst (RedisCache_Set now key v c), RedisCache_closed (snd (RedisCache_Set now key v c)))"
  "RedisCache_SetWithTTL now key v t (RedisCache_closed c) =
     (fst (RedisCache_SetWithTTL now key v t c),
      RedisCache_closed (snd (RedisCache_SetWithTTL now key v t c)))"
  "RedisCache_Get now key d (RedisCache_closed c) =
     (fst (RedisCache_Get now key d c), fst (snd (RedisCache_Get now key d c)),
      RedisCache_closed (snd (snd (RedisCache_Get now key d c))))"
  "RedisCache_Delete key (RedisCache_closed c) =
     (fst (RedisCache_Delete key c), RedisCache_closed (snd (RedisCache_Delete key c)))"
  "RedisCache_Exists now key (RedisCache_closed c) = RedisCache_Exists now key c"
  "RedisCache_GetTTL now key (RedisCache_closed c) = RedisCache_GetTTL now key c"
  "RedisCache_Increment now key (RedisCache_closed c) =
     (fst (RedisCache_Increment now key c), RedisCache_closed (snd (RedisCache_Increment now key c)))"
  "RedisCache_IncrementWithTTL now key t (RedisCache_closed c) =
     (fst (RedisCache_IncrementWithTTL now key t c),
      RedisCache_closed (snd (RedisCache_IncrementWithTTL now key t c)))"
  by (simp_all add: RedisCache_closed_def RedisCache_Set_def RedisCache_SetWithTTL_def
      RedisCache_Get_def RedisCache_Delete_def RedisCache_Exists_def RedisCache_GetTTL_def
      RedisCache_Increment_def RedisCache_IncrementWithTTL_def Let_def
      split: option.splits iface.splits)

text \<open>
  Claim C4, amended. \<^verbatim>\<open>Close\<close> on a cache that has not been closed stops the sweeper and
  returns nil. After it every operation does what it does on the open cache, with the
  same result and the same effect on the entries: there is no closed-cache error.
\<close>

theorem Close_succeeds_once_and_operations_go_on:
  assumes "\<not> stopChClosed c" and "\<not> RedisCache.stopChClosed rc"
  shows "MemoryCache_Close c = Inr (None, MemoryCache_closed c) \<and>
     RedisCache_Close rc = Inr (None, RedisCache_closed rc) \<and>
     MemoryCache_Set now key v (MemoryCache_closed c) =
       (fst (MemoryCache_Set now key v c), MemoryCache_closed (snd (MemoryCache_Set now key v c))) \<and>
     MemoryCache_SetWithTTL now key v t (MemoryCache_closed c) =
       (fst (MemoryCache_SetWithTTL now key v t c),
        MemoryCache_closed (snd (MemoryCache_SetWithTTL now key v t c))) \<and>
     MemoryCache_Get now key d (MemoryCache_closed c) =
       (fst (MemoryCache_Get now key d c), fst (snd (MemoryCache_Get now key d c)),
        MemoryCache_closed (snd (snd (MemoryCache_Get now key d c)))) \<and>
     MemoryCache_Delete key (MemoryCache_closed c) =
       (fst (MemoryCache_Delete key c), MemoryCache_closed (snd (MemoryCache_Delete key c))) \<and>
     MemoryCache_Exists now key (MemoryCache_closed c) = MemoryCache_Exists now key c \<and>
     MemoryCache_GetTTL now key (MemoryCache_closed c) = MemoryCache_GetTTL now key c \<and>
     MemoryCache_Increment now key (MemoryCache_closed c) =
       (fst (MemoryCache_Increment now key c),
        MemoryCache_closed (snd (MemoryCache_Increment now key c))) \<and>
     MemoryCache_IncrementWithTTL now key t (MemoryCache_closed c) =
       (fst (MemoryCache_IncrementWithTTL now key t c),
        MemoryCache_closed (snd (MemoryCache_IncrementWithTTL now key t c))) \<and>
     RedisCache_Set now key v (RedisCache_closed rc) =
       (fst (RedisCache_Set now key v rc), RedisCache_closed (snd (RedisCache_Set now key v rc))) \<and>
     RedisCache_SetWithTTL now key v t (RedisCache_closed rc) =
       (fst (RedisCache_SetWithTTL now key v t rc),
        RedisCache_closed (snd (RedisCache_SetWithTTL now key v t rc))) \<and>
     RedisCache_Get now key d (RedisCache_closed rc) =
       (fst (RedisCache_Get now key d rc), fst (snd (RedisCache_Get now key d rc)),
        RedisCache_closed (snd (snd (RedisCache_Get now key d rc)))) \<and>
     RedisCache_Delete key (RedisCache_closed rc) =
       (fst (RedisCache_Delete key rc), RedisCache_closed (snd (RedisCache_Delete key rc))) \<and>
     RedisCache_Exists now key (RedisCache_closed rc) = RedisCache_Exists now key rc \<and>
     RedisCache_GetTTL now key (RedisCache_closed rc) = RedisCache_GetTTL now key rc \<and>
     RedisCache_Increment now key (RedisCache_closed rc) =
       (fst (RedisCache_Increment now key rc),
        RedisCache_closed (snd (RedisCache_Increment now key rc))) \<and>
     RedisCache_IncrementWithTTL now key t (RedisCache_closed rc) =
       (fst (RedisCache_IncrementWithTTL now key t rc),
        RedisCache_closed (snd (RedisCache_IncrementWithTTL now key t rc)))"
proof -
  have "MemoryCache_Close c = Inr (None, MemoryCache_closed c)"
    using assms(1) by (simp add: MemoryCache_Close_def MemoryCache_closed_def Let_def)
  moreover have "RedisCache_Close rc = Inr (None, RedisCache_closed rc)"
    using assms(2) by (simp add: RedisCache_Close_def RedisCache_closed_def Let_def)
  ultimately show ?thesis
    by (simp only: MemoryCache_ops_after_close RedisCache_ops_after_close simp_thms)
qed

theorem Close_succeeds_once_and_operations_go_on_witness:
  "\<not> stopChClosed (NewMemoryCache 1000 300) \<and>
   \<not> RedisCache.stopChClosed (NewRedisCache 300) \<and>
   MemoryCache_Close (NewMemoryCache 1000 300)
     = Inr (None, MemoryCache_closed (NewMemoryCache 1000 300)) \<and>
   RedisCache_Close (NewRedisCache 300) = Inr (None, RedisCache_closed (NewRedisCache 300)) \<and>
   MemoryCache_Exists 6 ''k'' (MemoryCache_closed (NewMemoryCache 1000 300))
     = MemoryCache_Exists 6 ''k'' (NewMemoryCache 1000 300) \<and>
   RedisCache_Exists 6 ''k'' (RedisCache_closed (NewRedisCache 300))
     = RedisCache_Exists 6 ''k'' (NewRedisCache 300)"
proof -
  have h1: "\<not> stopChClosed (NewMemoryCache 1000 300)" by (simp add: NewMemoryCache_def)
  have h2: "\<not> RedisCache.stopChClosed (NewRedisCache 300)" by (simp add: NewRedisCache_def)
  from h1 h2 Close_succeeds_once_and_operations_go_on [OF h1 h2, of 6 "''k''"]
  show ?thesis by simp
qed

text \<open>
  The claim as stated fails: on both caches a second \<^verbatim>\<open>Close\<close> panics (the stop channel
  is closed twice), and after \<^verbatim>\<open>Close\<close> a \<^verbatim>\<open>Set\<close> succeeds and \<^verbatim>\<open>Exists\<close>, \<^verbatim>\<open>Increment\<close> and
  \<^verbatim>\<open>Get\<close> find or count the entry.
\<close>

theorem closed_cache_counterexample:
  "MemoryCache_Close (NewMemoryCache 1000 300)
     = Inr (None, MemoryCache_closed (NewMemoryCache 1000 300)) \<and>
   MemoryCache_Close (MemoryCache_closed (NewMemoryCache 1000 300)) = Inl CloseOfClosedChannel \<and>
   RedisCache_Close (RedisCache_closed (NewRedisCache 300)) = Inl CloseOfClosedChannel \<and>
   fst (MemoryCache_Set 5 ''k'' (Int64 1) (MemoryCache_closed (NewMemoryCache 1000 300))) = None \<and>
   MemoryCache_Exists 6 ''k''
     (snd (MemoryCache_Set 5 ''k'' (Int64 1) (MemoryCache_closed (NewMemoryCache 1000 300))))
     = (True, None) \<and>
   fst (MemoryCache_Increment 6 ''k''
     (snd (MemoryCache_Set 5 ''k'' (Int64 1) (MemoryCache_closed (NewMemoryCache 1000 300)))))
     = (2, None) \<and>
   fst (MemoryCache_Get 6 ''k'' (IfacePtr Nil)
     (snd (MemoryCache_Set 5 ''k'' (Int64 1) (MemoryCache_closed (NewMemoryCache 1000 300)))))
     = None \<and>
   fst (RedisCache_Set 5 ''k'' (Int64 1) (RedisCache_closed (NewRedisCache 300))) = None \<and>
   RedisCache_Exists 6 ''k''
     (snd (RedisCache_Set 5 ''k'' (Int64 1) (RedisCache_closed (NewRedisCache 300))))
     = (True, None)"
  by (simp add: MemoryCache_Close_def RedisCache_Close_def MemoryCache_closed_def
      RedisCache_closed_def NewMemoryCache_def NewRedisCache_def MemoryCache_Set_def
      RedisCache_Set_def MemoryCache_Exists_def RedisCache_Exists_def MemoryCache_Increment_def
      MemoryCache_Get_def Let_def)

lemma MemoryCache_Increment_cases:
  "map_of (items c) key = None \<Longrightarrow>
     fst (MemoryCache_Increment now key c) = (1, None) \<and>
     map_of (items (snd (MemoryCache_Increment now key c))) key =
       Some \<lparr>Value = Int64 1, ExpiresAt = now + ttl c, LastUsed = now, AccessCount = 1\<rparr>"
  "map_of (items c) key = Some item \<Longrightarrow> now > ExpiresAt item \<Longrightarrow>
     fst (MemoryCache_Increment now key c) = (1, None) \<and>
     map_of (items (snd (MemoryCache_Increment now key c))) key =
       Some \<lparr>Value = Int64 1, ExpiresAt = now + ttl c, LastUsed = now, AccessCount = 1\<rparr>"
  "map_of (items c) key = Some item \<Longrightarrow> \<not> now > ExpiresAt item \<Longrightarrow> Value item = Int64 n \<Longrightarrow>
     fst (MemoryCache_Increment now key c) = (n + 1, None) \<and>
     map_of (items (snd (MemoryCache_Increment now key c))) key =
       Some (item\<lparr>Value := Int64 (n + 1), LastUsed := now, AccessCount := AccessCount item + 1\<rparr>)"
  "map_of (items c) key = Some item \<Longrightarrow> \<not> now > ExpiresAt item \<Longrightarrow> \<forall>n. Value item \<noteq> Int64 n \<Longrightarrow>
     fst (MemoryCache_Increment now key c) = (1, None) \<and>
     map_of (items (snd (MemoryCache_Increment now key c))) key =
       Some (item\<lparr>Value := Int64 1, LastUsed := now, AccessCount := AccessCount item + 1\<rparr>)"
  by (auto simp add: MemoryCache_Increment_def update_conv' split: iface.splits)

lemma MemoryCache_IncrementWithTTL_cases:
  "map_of (items c) key = None \<Longrightarrow>
     fst (MemoryCache_IncrementWithTTL now key t c) = (1, None) \<and>
     map_of (items (snd (MemoryCache_IncrementWithTTL now key t c))) key =
       Some \<lparr>Value = Int64 1, ExpiresAt = now + t, LastUsed = now, AccessCount = 1\<rparr>"
  "map_of (items c) key = Some item \<Longrightarrow> Value item = Int64 n \<Longrightarrow>
     fst (MemoryCache_IncrementWithTTL now key t c) = (n + 1, None) \<and>
     map_of (items (snd (MemoryCache_IncrementWithTTL now key t c))) key =
       Some (item\<lparr>Value := Int64 (n + 1), ExpiresAt := now + t, LastUsed := now,
                  AccessCount := AccessCount item + 1\<rparr>)"
  "map_of (items c) key = Some item \<Longrightarrow> \<forall>n. Value item \<noteq> Int64 n \<Longrightarrow>
     fst (MemoryCache_IncrementWithTTL now key t c) = (1, None) \<and>
     map_of (items (snd (MemoryCache_IncrementWithTTL now key t c))) key =
       Some (item\<lparr>Value := Int64 1, ExpiresAt := now + t, LastUsed := now,
                  AccessCount := AccessCount item + 1\<rparr>)"
  by (auto simp add: MemoryCache_IncrementWithTTL_def update_conv' Let_def split: iface.splits)

text \<open>
  Claim C5 (the code departs from it). On an entry that has expired and holds an
  integer, \<^verbatim>\<open>Increment\<close> starts again at 1, as the claim says, but \<^verbatim>\<open>IncrementWithTTL\<close>
  does not look at the expiry: it adds 1 to the expired value, in both caches.
\<close>

theorem IncrementWithTTL_counts_on_after_expiry:
  "(\<forall>item n. map_of (items c) key = Some item \<and> Value item = Int64 n \<and> now > ExpiresAt item \<longrightarrow>
      fst (MemoryCache_Increment now key c) = (1, None) \<and>
      fst (MemoryCache_IncrementWithTTL now key t c) = (n + 1, None)) \<and>
   (\<forall>item n. map_of (RedisCache.items rc) key = Some item \<and> Value item = Int64 n \<and>
             now > ExpiresAt item \<longrightarrow>
      fst (RedisCache_Increment now key rc) = (1, None) \<and>
      fst (RedisCache_IncrementWithTTL now key t rc) = (n + 1, None))"
  by (simp add: MemoryCache_Increment_def MemoryCache_IncrementWithTTL_def
      RedisCache_Increment_def RedisCache_IncrementWithTTL_def Let_def)

theorem IncrementWithTTL_counts_on_after_expiry_witness:
  "map_of (items ((NewMemoryCache 1000 300) \<lparr>items := [(''hits'',
      \<lparr>Value = Int64 5, ExpiresAt = 10, LastUsed = 0, AccessCount = 5\<rparr>)]\<rparr>)) ''hits''
     = Some \<lparr>Value = Int64 5, ExpiresAt = 10, LastUsed = 0, AccessCount = 5\<rparr> \<and>
   Value \<lparr>Value = Int64 5, ExpiresAt = 10, LastUsed = 0, AccessCount = 5\<rparr> = Int64 5 \<and>
   20 > ExpiresAt \<lparr>Value = Int64 5, ExpiresAt = 10, LastUsed = 0, AccessCount = 5\<rparr> \<and>
   fst (MemoryCache_Increment 20 ''hits'' ((NewMemoryCache 1000 300) \<lparr>items := [(''hits'',
      \<lparr>Value = Int64 5, ExpiresAt = 10, LastUsed = 0, AccessCount = 5\<rparr>)]\<rparr>)) = (1, None) \<and>
   fst (MemoryCache_IncrementWithTTL 20 ''hits'' 100 ((NewMemoryCache 1000 300) \<lparr>items := [(''hits'',
      \<lparr>Value = Int64 5, ExpiresAt = 10, LastUsed = 0, AccessCount = 5\<rparr>)]\<rparr>)) = (6, None)"
proof -
  let ?item = "\<lparr>Value = Int64 5, ExpiresAt = 10, LastUsed = 0, AccessCount = 5\<rparr>"
  let ?c = "(NewMemoryCache 1000 300) \<lparr>items := [(''hits'', ?item)]\<rparr>"
  have h1: "map_of (items ?c) ''hits'' = Some ?item" by simp
  have h2: "Value ?item = Int64 5" by simp
  have h3: "20 > ExpiresAt ?item" by simp
  from IncrementWithTTL_counts_on_after_expiry [of ?c "''hits''" 20 100 "NewRedisCache 300"] h1 h2 h3
  have "fst (MemoryCache_Increment 20 ''hits'' ?c) = (1, None) \<and>
      fst (MemoryCache_IncrementWithTTL 20 ''hits'' 100 ?c) = (5 + 1, None)"
    by blast
  with h1 h2 h3 show ?thesis by simp
qed

section \<open>Inference client\<close>

lemma executeAnalysisRequest_requests:
  "executeAnalysisRequest net mlRequest c = (r, c1) \<Longrightarrow>
   c1 = c\<lparr>requests := Suc (requests c)\<rparr>"
  by (auto simp add: executeAnalysisRequest_def Let_def
      split: attempt_outcome.splits if_splits option.splits)


lemma loop_done:
  "\<not> attempt \<le> MaxRetries (Client.config c) \<Longrightarrow>
   AnalyzeFrame_loop net mlRequest attempt lastErr sleeps c =
     (Inl (AnalysisFailed (MaxRetries (Client.config c)) lastErr), sleeps, c)"
  by (subst AnalyzeFrame_loop.simps) simp

lemma loop_ok:
  "attempt \<le> MaxRetries (Client.config c) \<Longrightarrow>
   executeAnalysisRequest net mlRequest c = (Inr res, c1) \<Longrightarrow>
   AnalyzeFrame_loop net mlRequest attempt lastErr sleeps c =
     (Inr res,
      (if attempt > 0 then sleeps @ [RetryDelay (Client.config c) * word_of_int attempt] else sleeps),
      c1)"
  by (subst AnalyzeFrame_loop.simps) (simp add: Let_def)

lemma loop_retry:
  "attempt \<le> MaxRetries (Client.config c) \<Longrightarrow>
   executeAnalysisRequest net mlRequest c = (Inl err, c1) \<Longrightarrow>
   AnalyzeFrame_loop net mlRequest attempt lastErr sleeps c =
     AnalyzeFrame_loop net mlRequest (attempt + 1) (Some err)
       (if attempt > 0 then sleeps @ [RetryDelay (Client.config c) * word_of_int attempt] else sleeps)
       c1"
  by (subst AnalyzeFrame_loop.simps) (simp add: Let_def)



lemma executeAnalysisRequest_fails_iff:
  "isl (fst (executeAnalysisRequest net mlRequest c)) \<longleftrightarrow> attempt_fails (net (requests c))"
  by (auto simp add: executeAnalysisRequest_def attempt_fails_def Let_def
      split: attempt_outcome.splits if_splits option.splits)

lemma AnalyzeFrame_loop_spec:
  assumes "AnalyzeFrame_loop net mlRequest attempt lastErr sleeps c = (r, sleeps', c')"
    and "0 \<le> attempt"
  shows "\<exists>n. c' = c\<lparr>requests := requests c + n\<rparr> \<and>
           n \<le> nat (MaxRetries (Client.config c) + 1 - attempt) \<and>
           sleeps' = sleeps @ concat (map (\<lambda>i. if attempt + int i > 0
                        then [RetryDelay (Client.config c) * word_of_int (attempt + int i)] else [])
                      [0..<n]) \<and>
           (\<forall>i. Suc i < n \<longrightarrow> attempt_fails (net (requests c + i))) \<and>
           (case r of
              Inr res \<Rightarrow> 0 < n \<and> \<not> attempt_fails (net (requests c + n - 1))
            | Inl e \<Rightarrow> n = nat (MaxRetries (Client.config c) + 1 - attempt) \<and>
                       (\<forall>i < n. attempt_fails (net (requests c + i))))"
  using assms
proof (induction "nat (MaxRetries (Client.config c) + 1 - attempt)"
       arbitrary: attempt lastErr sleeps c)
  case 0
  then have "\<not> attempt \<le> MaxRetries (Client.config c)" by simp
  from loop_done [OF this] "0.prems"(1) "0.hyps" show ?case
    by (intro exI [of _ 0]) auto
next
  case (Suc m)
  let ?M = "MaxRetries (Client.config c)"
  let ?d = "RetryDelay (Client.config c)"
  from Suc.hyps(2) have le: "attempt \<le> ?M" by simp
  obtain r1 c1 where ex: "executeAnalysisRequest net mlRequest c = (r1, c1)"
    by (cases "executeAnalysisRequest net mlRequest c")
  have c1: "c1 = c\<lparr>requests := Suc (requests c)\<rparr>"
    using executeAnalysisRequest_requests [OF ex] .
  have fails: "isl r1 \<longleftrightarrow> attempt_fails (net (requests c))"
    using executeAnalysisRequest_fails_iff [of net mlRequest c] ex by simp
  let ?s1 = "if attempt > 0 then sleeps @ [?d * word_of_int attempt] else sleeps"
  show ?case
  proof (cases r1)
    case (Inr result)
    with loop_ok [OF le, of net mlRequest result c1 lastErr sleeps] ex Suc.prems(1)
    have out: "r = Inr result" "sleeps' = ?s1" "c' = c1" by simp_all
    have nf: "\<not> attempt_fails (net (requests c))" using fails Inr by simp
    have "1 \<le> nat (?M + 1 - attempt)" using le by simp
    with out c1 nf show ?thesis
      by (intro exI [of _ 1]) auto
  next
    case (Inl err)
    have f: "attempt_fails (net (requests c))" using fails Inl by simp
    from loop_retry [OF le, of net mlRequest err c1 lastErr sleeps] ex Inl Suc.prems(1)
    have run: "AnalyzeFrame_loop net mlRequest (attempt + 1) (Some err) ?s1 c1 = (r, sleeps', c')"
      by simp
    have m: "m = nat (MaxRetries (Client.config c1) + 1 - (attempt + 1))"
      using Suc.hyps(2) c1 by simp
    have nonneg: "0 \<le> attempt + 1" using Suc.prems(2) by simp
    from Suc.hyps(1) [OF m run nonneg] obtain n where
      st: "c' = c1\<lparr>requests := requests c1 + n\<rparr>"
      and bound: "n \<le> nat (MaxRetries (Client.config c1) + 1 - (attempt + 1))"
      and sl: "sleeps' = ?s1 @ concat (map (\<lambda>i. if attempt + 1 + int i > 0
                        then [RetryDelay (Client.config c1) * word_of_int (attempt + 1 + int i)] else [])
                      [0..<n])"
      and before: "\<forall>i. Suc i < n \<longrightarrow> attempt_fails (net (requests c1 + i))"
      and fin: "(case r of
              Inr res \<Rightarrow> 0 < n \<and> \<not> attempt_fails (net (requests c1 + n - 1))
            | Inl e \<Rightarrow> n = nat (MaxRetries (Client.config c1) + 1 - (attempt + 1)) \<and>
                       (\<forall>i < n. attempt_fails (net (requests c1 + i))))"
      by blast
    have cfg: "Client.config c1 = Client.config c" and rq: "requests c1 = Suc (requests c)"
      using c1 by simp_all
    have a: "c' = c\<lparr>requests := requests c + Suc n\<rparr>" using st c1 by simp
    have b: "Suc n \<le> nat (?M + 1 - attempt)" using bound cfg le by simp
    have shift: "map (\<lambda>i. if attempt + int i > 0 then [?d * word_of_int (attempt + int i)] else [])
                   [0..<Suc n]
        = (if attempt > 0 then [?d * word_of_int attempt] else []) #
          map (\<lambda>i. if attempt + 1 + int i > 0 then [?d * word_of_int (attempt + 1 + int i)] else [])
            [0..<n]"
    proof -
      have "[0..<Suc n] = 0 # map Suc [0..<n]"
        by (simp add: upt_conv_Cons map_Suc_upt del: upt_Suc)
      then show ?thesis by (simp add: comp_def add.commute add.left_commute del: upt_Suc)
    qed
    have c: "sleeps' = sleeps @ concat (map (\<lambda>i. if attempt + int i > 0
                        then [?d * word_of_int (attempt + int i)] else []) [0..<Suc n])"
      unfolding shift using sl [unfolded cfg] by simp
    have d: "\<forall>i. Suc i < Suc n \<longrightarrow> attempt_fails (net (requests c + i))"
    proof (intro allI impI)
      fix i assume "Suc i < Suc n"
      show "attempt_fails (net (requests c + i))"
      proof (cases i)
        case 0 with f show ?thesis by simp
      next
        case (Suc j)
        with \<open>Suc i < Suc n\<close> before rq show ?thesis by simp
      qed
    qed
    have e: "(case r of
              Inr res \<Rightarrow> 0 < Suc n \<and> \<not> attempt_fails (net (requests c + Suc n - 1))
            | Inl e \<Rightarrow> Suc n = nat (?M + 1 - attempt) \<and>
                       (\<forall>i < Suc n. attempt_fails (net (requests c + i))))"
    proof (cases r)
      case (Inr res)
      with fin rq show ?thesis by (cases n) simp_all
    next
      case (Inl e)
      with fin cfg have n: "n = nat (?M + 1 - (attempt + 1))"
        and all: "\<forall>i < n. attempt_fails (net (requests c1 + i))" by simp_all
      have "Suc n = nat (?M + 1 - attempt)" using n le by simp
      moreover have "\<forall>i < Suc n. attempt_fails (net (requests c + i))"
      proof (intro allI impI)
        fix i assume "i < Suc n"
        show "attempt_fails (net (requests c + i))"
        proof (cases i)
          case 0 with f show ?thesis by simp
        next
          case (Suc j)
          with \<open>i < Suc n\<close> all rq show ?thesis by simp
        qed
      qed
      ultimately show ?thesis using Inl by simp
    qed
    from a b c d e show ?thesis by blast
  qed
qed

lemma backoff_from_zero:
  "concat (map (\<lambda>i. if 0 + int i > 0 then [d * word_of_int (0 + int i)] else []) [0..<n])
     = map (\<lambda>k. d * of_nat k) [1..<n]"
proof (induction n)
  case 0
  then show ?case by simp
next
  case (Suc n)
  show ?case
  proof (cases n)
    case 0
    then show ?thesis by simp
  next
    case (Suc j)
    with Suc.IH show ?thesis by simp
  qed
qed

text \<open>
  Claim C2, amended. \<^verbatim>\<open>AnalyzeFrame\<close> calls the service again after every error of an
  attempt, a body that does not decode and a status other than 200 included, until an
  attempt succeeds or \<^verbatim>\<open>MaxRetries + 1\<close> calls have been made; before the call number
  \<open>k + 1\<close> it sleeps \<^verbatim>\<open>RetryDelay * k\<close>.
\<close>

theorem AnalyzeFrame_retries_every_error:
  assumes "AnalyzeFrame net request c = (r, sleeps, c')"
  shows "\<exists>n. requests c' = requests c + n \<and>
           n \<le> nat (MaxRetries (Client.config c) + 1) \<and>
           sleeps = map (\<lambda>k. RetryDelay (Client.config c) * of_nat k) [1..<n] \<and>
           (\<forall>i. Suc i < n \<longrightarrow> attempt_fails (net (requests c + i))) \<and>
           (case r of
              Inr res \<Rightarrow> 0 < n \<and> \<not> attempt_fails (net (requests c + n - 1))
            | Inl e \<Rightarrow> n = nat (MaxRetries (Client.config c) + 1) \<and>
                       (\<forall>i < n. attempt_fails (net (requests c + i))))"
proof -
  from AnalyzeFrame_loop_spec [OF assms [unfolded AnalyzeFrame_def]]
  obtain n where
    st: "c' = c\<lparr>requests := requests c + n\<rparr>"
    and rest: "n \<le> nat (MaxRetries (Client.config c) + 1 - 0)"
      "sleeps = [] @ concat (map (\<lambda>i. if 0 + int i > 0
                        then [RetryDelay (Client.config c) * word_of_int (0 + int i)] else [])
                      [0..<n])"
      "\<forall>i. Suc i < n \<longrightarrow> attempt_fails (net (requests c + i))"
      "(case r of
              Inr res \<Rightarrow> 0 < n \<and> \<not> attempt_fails (net (requests c + n - 1))
            | Inl e \<Rightarrow> n = nat (MaxRetries (Client.config c) + 1 - 0) \<and>
                       (\<forall>i < n. attempt_fails (net (requests c + i))))"
    by auto
  have "requests c' = requests c + n" using st by simp
  moreover have "sleeps = map (\<lambda>k. RetryDelay (Client.config c) * of_nat k) [1..<n]"
    using rest(2) backoff_from_zero [of "RetryDelay (Client.config c)" n] by simp
  moreover have "n \<le> nat (MaxRetries (Client.config c) + 1)" using rest(1) by simp
  moreover have "(case r of
              Inr res \<Rightarrow> 0 < n \<and> \<not> attempt_fails (net (requests c + n - 1))
            | Inl e \<Rightarrow> n = nat (MaxRetries (Client.config c) + 1) \<and>
                       (\<forall>i < n. attempt_fails (net (requests c + i))))"
    using rest(4) by (cases r) simp_all
  ultimately show ?thesis using rest(3) by (intro exI [of _ n]) simp
qed

lemma malformed_run:
  "AnalyzeFrame service_malformed frame_of_A (NewClient ''http://localhost:5000'')
     = (Inl (AnalysisFailed 3 (Some DecodeFailed)), [1000000000, 2000000000, 3000000000],
        (NewClient ''http://localhost:5000'')\<lparr>requests := 4\<rparr>)"
  by code_simp

text \<open>
  The claim as stated fails: with the configuration of \<^verbatim>\<open>NewClient\<close>, a service whose
  every answer is 200 with a body that does not decode is called four times, and so is
  a service whose every answer is the 2xx status 204.
\<close>

theorem malformed_payload_is_retried_counterexample:
  "AnalyzeFrame service_malformed frame_of_A (NewClient ''http://localhost:5000'')
     = (Inl (AnalysisFailed 3 (Some DecodeFailed)), [1000000000, 2000000000, 3000000000],
        (NewClient ''http://localhost:5000'')\<lparr>requests := 4\<rparr>) \<and>
   AnalyzeFrame service_204 frame_of_A (NewClient ''http://localhost:5000'')
     = (Inl (AnalysisFailed 3 (Some (ServiceError 204))), [1000000000, 2000000000, 3000000000],
        (NewClient ''http://localhost:5000'')\<lparr>requests := 4\<rparr>)"
  by code_simp

theorem AnalyzeFrame_retries_every_error_witness:
  "AnalyzeFrame service_malformed frame_of_A (NewClient ''http://localhost:5000'')
     = (Inl (AnalysisFailed 3 (Some DecodeFailed)), [1000000000, 2000000000, 3000000000],
        (NewClient ''http://localhost:5000'')\<lparr>requests := 4\<rparr>) \<and>
   (\<exists>n. requests ((NewClient ''http://localhost:5000'')\<lparr>requests := 4\<rparr>)
           = requests (NewClient ''http://localhost:5000'') + n \<and>
        n \<le> nat (MaxRetries (Client.config (NewClient ''http://localhost:5000'')) + 1) \<and>
        [1000000000, 2000000000, 3000000000]
          = map (\<lambda>k. RetryDelay (Client.config (NewClient ''http://localhost:5000'')) * of_nat k)
              [1..<n] \<and>
        (\<forall>i. Suc i < n \<longrightarrow>
           attempt_fails (service_malformed (requests (NewClient ''http://localhost:5000'') + i))) \<and>
        (case (Inl (AnalysisFailed 3 (Some DecodeFailed)) :: ml_error + AnalysisResult) of
           Inr res \<Rightarrow> 0 < n \<and>
             \<not> attempt_fails (service_malformed (requests (NewClient ''http://localhost:5000'') + n - 1))
         | Inl e \<Rightarrow> n = nat (MaxRetries (Client.config (NewClient ''http://localhost:5000'')) + 1) \<and>
             (\<forall>i < n. attempt_fails
                (service_malformed (requests (NewClient ''http://localhost:5000'') + i)))))"
proof (rule conjI)
  show "AnalyzeFrame service_malformed frame_of_A (NewClient ''http://localhost:5000'')
     = (Inl (AnalysisFailed 3 (Some DecodeFailed)), [1000000000, 2000000000, 3000000000],
        (NewClient ''http://localhost:5000'')\<lparr>requests := 4\<rparr>)"
    by (rule malformed_run)
next
  show "\<exists>n. requests ((NewClient ''http://localhost:5000'')\<lparr>requests := 4\<rparr>)
           = requests (NewClient ''http://localhost:5000'') + n \<and>
        n \<le> nat (MaxRetries (Client.config (NewClient ''http://localhost:5000'')) + 1) \<and>
        [1000000000, 2000000000, 3000000000]
          = map (\<lambda>k. RetryDelay (Client.config (NewClient ''http://localhost:5000'')) * of_nat k)
              [1..<n] \<and>
        (\<forall>i. Suc i < n \<longrightarrow>
           attempt_fails (service_malformed (requests (NewClient ''http://localhost:5000'') + i))) \<and>
        (case (Inl (AnalysisFailed 3 (Some DecodeFailed)) :: ml_error + AnalysisResult) of
           Inr res \<Rightarrow> 0 < n \<and>
             \<not> attempt_fails (service_malformed (requests (NewClient ''http://localhost:5000'') + n - 1))
         | Inl e \<Rightarrow> n = nat (MaxRetries (Client.config (NewClient ''http://localhost:5000'')) + 1) \<and>
             (\<forall>i < n. attempt_fails
                (service_malformed (requests (NewClient ''http://localhost:5000'') + i))))"
    by (rule AnalyzeFrame_retries_every_error [OF malformed_run])
qed

section \<open>Work queue\<close>

lemma send_result_keeps:
  "no_cancellation sk \<Longrightarrow> Error r \<noteq> Some ProcessingCancelled \<Longrightarrow>
   no_cancellation (send_result ch r sk)"
  by (simp add: no_cancellation_def send_result_def)

lemma worker_step_keeps:
  assumes "\<forall>item r. workerFunc item = Sends r \<longrightarrow> Error r \<noteq> Some ProcessingCancelled"
    and "no_cancellation sk"
  shows "no_cancellation (snd (worker_step workerFunc (pq, sk)))"
proof (cases "ProcessingQueue.items pq")
  case Nil
  with assms(2) show ?thesis by (simp add: worker_step_def)
next
  case (Cons item rest)
  show ?thesis
  proof (cases "workerFunc item")
    case (Sends r)
    with assms(1) have "Error r \<noteq> Some ProcessingCancelled" by blast
    with Cons Sends assms(2) show ?thesis
      by (simp add: worker_step_def send_result_keeps)
  next
    case Panics
    with Cons assms(2) show ?thesis
      by (simp add: worker_step_def send_result_keeps)
  qed
qed

lemma run_ops_keeps:
  assumes "\<forall>item r. workerFunc item = Sends r \<longrightarrow> Error r \<noteq> Some ProcessingCancelled"
  shows "run_ops workerFunc ops (pq, sk) = Inr (pq', sk') \<Longrightarrow> no_cancellation sk \<Longrightarrow>
         no_cancellation sk'"
proof (induction ops arbitrary: pq sk)
  case Nil
  then show ?case by simp
next
  case (Cons op ops)
  show ?case
  proof (cases op)
    case (OpEnqueue item)
    with Cons.prems(1) obtain accepted pq1 where
      r: "run_ops workerFunc ops (pq1, sk) = Inr (pq', sk')"
      by (auto split: sum.splits)
    from Cons.IH [OF r Cons.prems(2)] show ?thesis .
  next
    case OpWork
    obtain pq1 sk1 where w: "worker_step workerFunc (pq, sk) = (pq1, sk1)"
      by (cases "worker_step workerFunc (pq, sk)")
    have "no_cancellation (snd (worker_step workerFunc (pq, sk)))"
      by (rule worker_step_keeps [OF assms Cons.prems(2)])
    then have k: "no_cancellation sk1" by (simp add: w)
    have r: "run_ops workerFunc ops (pq1, sk1) = Inr (pq', sk')"
      using Cons.prems(1) OpWork w by simp
    from Cons.IH [OF r k] show ?thesis .
  next
    case (OpShutdown race)
    with Cons.prems(1) have
      r: "run_ops workerFunc ops (snd (Shutdown race pq), sk) = Inr (pq', sk')"
      by simp
    from Cons.IH [OF r Cons.prems(2)] show ?thesis .
  qed
qed

lemma Shutdown_running:
  "isRunning pq \<Longrightarrow>
   Shutdown race pq =
     ((case race of WorkersFinish \<Rightarrow> None | TimeoutElapses \<Rightarrow> Some ShutdownTimeoutExceeded),
      pq\<lparr>isRunning := False, shutdownClosed := True, itemsClosed := True\<rparr>)"
  by (cases race) (simp_all add: Shutdown_def Let_def)

lemma Shutdown_stops_intake:
  "Enqueue item (snd (Shutdown race pq)) = Inr (False, snd (Shutdown race pq))"
  by (cases race) (simp_all add: Shutdown_def Enqueue_def Let_def)

lemma Shutdown_keeps_pending:
  "ProcessingQueue.items (snd (Shutdown race pq)) = ProcessingQueue.items pq"
  by (cases race) (simp_all add: Shutdown_def Let_def)

lemma DrainQueue_loop_open:
  "\<not> itemsClosed pq \<Longrightarrow>
   DrainQueue_loop pq sk drained =
     Some (drained + length (ProcessingQueue.items pq), pq\<lparr>ProcessingQueue.items := []\<rparr>,
           foldl (\<lambda>s item. send_result (ResultChan item) cancelled_result s) sk
             (ProcessingQueue.items pq))"
proof (induction "ProcessingQueue.items pq" arbitrary: pq sk drained)
  case Nil
  then show ?case by (subst DrainQueue_loop.simps) simp
next
  case (Cons item rest)
  let ?pq1 = "pq\<lparr>ProcessingQueue.items := rest\<rparr>"
  have "rest = ProcessingQueue.items ?pq1" by simp
  moreover have "\<not> itemsClosed ?pq1" using Cons.prems by simp
  ultimately have "DrainQueue_loop ?pq1 (send_result (ResultChan item) cancelled_result sk)
      (drained + 1) =
     Some (drained + 1 + length (ProcessingQueue.items ?pq1), ?pq1\<lparr>ProcessingQueue.items := []\<rparr>,
           foldl (\<lambda>s item. send_result (ResultChan item) cancelled_result s)
             (send_result (ResultChan item) cancelled_result sk) (ProcessingQueue.items ?pq1))"
    by (rule Cons.hyps(1))
  then show ?case
    using Cons.hyps(2) [symmetric] by (subst DrainQueue_loop.simps) simp
qed

lemma DrainQueue_loop_returns_only_when_open:
  assumes returned: "DrainQueue_loop pq sk drained = Some res"
  shows "\<not> itemsClosed pq"
proof (rule DrainQueue_loop.raw_induct
    [where P = "\<lambda>pq sk drained res. \<not> itemsClosed pq", OF _ returned])
  fix loop :: "ProcessingQueue \<Rightarrow> sinks \<Rightarrow> nat \<Rightarrow> (nat \<times> ProcessingQueue \<times> sinks) option"
    and pq sk drained res
  assume IH: "\<And>pq sk drained res. loop pq sk drained = Some res \<Longrightarrow> \<not> itemsClosed pq"
    and step: "(case ProcessingQueue.items pq of
        [] \<Rightarrow> if itemsClosed pq then loop pq sk drained else Some (drained, pq, sk)
      | item # rest \<Rightarrow>
          loop (pq\<lparr>ProcessingQueue.items := rest\<rparr>)
            (send_result (ResultChan item) cancelled_result sk) (drained + 1)) = Some res"
  show "\<not> itemsClosed pq"
  proof (cases "ProcessingQueue.items pq")
    case Nil
    show ?thesis
    proof
      assume closed: "itemsClosed pq"
      with step Nil have "loop pq sk drained = Some res" by simp
      from IH [OF this] closed show False by simp
    qed
  next
    case (Cons item rest)
    with step have "loop (pq\<lparr>ProcessingQueue.items := rest\<rparr>)
        (send_result (ResultChan item) cancelled_result sk) (drained + 1) = Some res"
      by simp
    from IH [OF this] show ?thesis by simp
  qed
qed

lemma DrainQueue_cancels_pending:
  "\<not> itemsClosed pq \<Longrightarrow> ProcessingQueue.items pq = [item] \<Longrightarrow> sk (ResultChan item) = None \<Longrightarrow>
   \<exists>pq' sk'. DrainQueue pq sk = Some (1, pq', sk') \<and> sk' (ResultChan item) = Some cancelled_result"
  by (simp add: DrainQueue_def DrainQueue_loop_open send_result_def)

text \<open>
  Claim C3 (the code departs from it). Whatever callers, workers and \<^verbatim>\<open>Shutdown\<close> do with
  a queue, in any order, no sink ever receives the cancellation result, unless the
  handler itself sends one: \<^verbatim>\<open>Shutdown\<close> stops the intake and reports the timeout, but
  the items still pending stay in the closed channel and their sinks stay as they are.
  Only \<^verbatim>\<open>DrainQueue\<close> sends cancellations, and nothing calls it.
\<close>

theorem Shutdown_delivers_no_cancellation:
  assumes "run_ops workerFunc ops (pq, sk) = Inr (pq', sk')"
    and "\<forall>item r. workerFunc item = Sends r \<longrightarrow> Error r \<noteq> Some ProcessingCancelled"
    and "\<forall>ch r. sk ch = Some r \<longrightarrow> Error r \<noteq> Some ProcessingCancelled"
  shows "\<forall>ch r. sk' ch = Some r \<longrightarrow> Error r \<noteq> Some ProcessingCancelled"
  using run_ops_keeps [OF assms(2) assms(1)] assms(3) by (simp add: no_cancellation_def)

lemma pending_item_run:
  "run_ops neutral_handler
     [OpEnqueue item_A, OpEnqueue item_B, OpWork, OpShutdown WorkersFinish]
     (NewProcessingQueue 100 1, empty_sinks)
   = Inr ((NewProcessingQueue 100 1)
            \<lparr>ProcessingQueue.items := [item_B], isRunning := False, shutdownClosed := True,
             itemsClosed := True\<rparr>,
          sinks_A_served)"
  by (simp add: NewProcessingQueue_def Enqueue_def worker_step_def Shutdown_def send_result_def
      neutral_handler_def item_A_def item_B_def Let_def empty_sinks_def sinks_A_served_def)

theorem Shutdown_delivers_no_cancellation_witness:
  "run_ops neutral_handler
     [OpEnqueue item_A, OpEnqueue item_B, OpWork, OpShutdown WorkersFinish]
     (NewProcessingQueue 100 1, empty_sinks)
   = Inr ((NewProcessingQueue 100 1)
            \<lparr>ProcessingQueue.items := [item_B], isRunning := False, shutdownClosed := True,
             itemsClosed := True\<rparr>,
          sinks_A_served) \<and>
   sinks_A_served (ResultChan item_B) = None \<and>
   \<not> (\<exists>ch r. sinks_A_served ch = Some r \<and> Error r = Some ProcessingCancelled)"
proof -
  have h2: "\<forall>item r. neutral_handler item = Sends r \<longrightarrow> Error r \<noteq> Some ProcessingCancelled"
    by (auto simp add: neutral_handler_def)
  have h3: "\<forall>ch r. empty_sinks ch = Some r \<longrightarrow> Error r \<noteq> Some ProcessingCancelled"
    by (simp add: empty_sinks_def)
  have b: "sinks_A_served (ResultChan item_B) = None"
    by (simp add: item_B_def sinks_A_served_def empty_sinks_def)
  note inv = Shutdown_delivers_no_cancellation [OF pending_item_run h2 h3]
  have c: "\<not> (\<exists>ch r. sinks_A_served ch = Some r \<and> Error r = Some ProcessingCancelled)"
  proof
    assume "\<exists>ch r. sinks_A_served ch = Some r \<and> Error r = Some ProcessingCancelled"
    then obtain ch r where a: "sinks_A_served ch = Some r"
      and e: "Error r = Some ProcessingCancelled"
      by (elim exE conjE)
    from inv [THEN spec, THEN spec, THEN mp, OF a] e show False by (rule notE)
  qed
  from pending_item_run b c show ?thesis by (intro conjI)
qed

section \<open>Frame processor\<close>





lemma Cache_Get_hit_ResultPtr:
  "map_of (Cache_items ch) key = Some item \<Longrightarrow> \<not> now > ExpiresAt item \<Longrightarrow>
   \<exists>ch1. Cache_Get now key (ResultPtr r) ch = (None, ResultPtr r, ch1)"
  by (cases ch) (simp_all add: Cache_Get_def Cache_items_def MemoryCache_Get_hit RedisCache_Get_hit)

lemma ProcessFrame_hit:
  assumes "cache fp = Some ch"
    and "map_of (Cache_items ch)
           (GenerateCacheKey md5hex
              [''frame'', generateFrameHash md5hex (FrameRequest.ImageData request), ClientID request])
         = Some item"
    and "\<not> now > ExpiresAt item"
  shows "\<exists>fp'. ProcessFrame md5hex net ev now request fp = Inr (Inr (Some zeroAnalysisResult), fp')
               \<and> mlClient fp' = mlClient fp"
proof -
  from Cache_Get_hit_ResultPtr [OF assms(2) assms(3), of zeroAnalysisResult]
  obtain ch1 where
    "Cache_Get now (GenerateCacheKey md5hex
        [''frame'', generateFrameHash md5hex (FrameRequest.ImageData request), ClientID request])
       (ResultPtr zeroAnalysisResult) ch = (None, ResultPtr zeroAnalysisResult, ch1)" ..
  then show ?thesis
    using assms(1) by (simp add: ProcessFrame_def Let_def cachedResult_of_def)
qed

lemmas eval_defs = ProcessFrame_def ProcessFrame_miss_def isSimilarFrame_def Cache_Get_def Cache_Set_def
  Cache_SetWithTTL_def Cache_Exists_def MemoryCache_Get_def MemoryCache_Set_def MemoryCache_SetWithTTL_def
  MemoryCache_Exists_def processFrame_def processFrame_result_def AnalyzeFrame_def executeAnalysisRequest_def
  convertMLResponse_def generateFeedback_def GenerateCacheKey_def generateFrameHash_def bytes_of_def plain_digest_def
  response_with_scores_def frame_of_A_def fresh_processor_def NewFrameProcessor_def NewClient_def NewMemoryCache_def
  zeroAnalysisResult_def Let_def cachedResult_of_def getCachedResult_def service_scoring_def result_90_def
  processor_after_A_def frame_of_B_def returned_result_def

lemma first_call_of_A:
  "ProcessFrame plain_digest (service_scoring 90 90 90 90) (Delivered 5000000000) 0 frame_of_A fresh_processor
     = Inr (Inr (Some result_90), processor_after_A)"
  by (simp add: eval_defs)

text \<open>
  Claim C1 (the code departs from it). When the cache holds a live entry under the key
  of \<open>(image bytes, client id)\<close>, with the result \<open>R\<close> of an earlier call as its value,
  \<^verbatim>\<open>ProcessFrame\<close> returns without a call of the inference client, but what it returns
  is the zero \<^verbatim>\<open>AnalysisResult\<close>, whatever \<open>R\<close> is: \<^verbatim>\<open>Get\<close> does not write through the
  \<^verbatim>\<open>*models.AnalysisResult\<close> it is given.
\<close>

theorem ProcessFrame_cache_hit_returns_zero_value:
  assumes "cache fp = Some ch"
    and "map_of (Cache_items ch)
           (GenerateCacheKey md5hex
              [''frame'', generateFrameHash md5hex (FrameRequest.ImageData request), ClientID request])
         = Some item"
    and "Value item = Result R"
    and "\<not> now > ExpiresAt item"
  shows "\<exists>fp'. ProcessFrame md5hex net ev now request fp = Inr (Inr (Some zeroAnalysisResult), fp')
               \<and> mlClient fp' = mlClient fp"
  using ProcessFrame_hit [OF assms(1) assms(2) assms(4)] .

theorem ProcessFrame_cache_hit_returns_zero_value_witness:
  "ProcessFrame plain_digest (service_scoring 90 90 90 90) (Delivered 5000000000) 0 frame_of_A
      fresh_processor = Inr (Inr (Some result_90), processor_after_A) \<and>
   result_90 \<noteq> zeroAnalysisResult \<and>
   (\<exists>fp'. ProcessFrame plain_digest (service_scoring 90 90 90 90) (Delivered 7000000000) 6000000000
            frame_of_A processor_after_A = Inr (Inr (Some zeroAnalysisResult), fp')
          \<and> mlClient fp' = mlClient processor_after_A)"
proof -
  let ?c = "(NewMemoryCache 1000 300000000000)
             \<lparr>items :=
                [(plain_digest (bytes_of ''similarity'' @ bytes_of (plain_digest [1, 2, 3])),
                  \<lparr>Value = Bool True, ExpiresAt = 300000000000, LastUsed = 0,
                    AccessCount = 1\<rparr>),
                 (plain_digest (bytes_of ''frame'' @ bytes_of (plain_digest [1, 2, 3]) @
                                bytes_of ''A''),
                  \<lparr>Value = Result result_90, ExpiresAt = 305000000000,
                    LastUsed = 5000000000, AccessCount = 1\<rparr>)]\<rparr>"
  let ?item = "\<lparr>Value = Result result_90, ExpiresAt = 305000000000,
                    LastUsed = 5000000000, AccessCount = 1\<rparr>"
  have h1: "cache processor_after_A = Some (Memory ?c)"
    by (simp add: processor_after_A_def)
  have h2: "map_of (Cache_items (Memory ?c))
           (GenerateCacheKey plain_digest
              [''frame'', generateFrameHash plain_digest (FrameRequest.ImageData frame_of_A),
               ClientID frame_of_A]) = Some ?item"
    by (simp add: Cache_items_def GenerateCacheKey_def generateFrameHash_def frame_of_A_def
        plain_digest_def bytes_of_def)
  have h3: "Value ?item = Result result_90" by simp
  have h4: "\<not> 6000000000 > ExpiresAt ?item" by simp
  have r: "result_90 \<noteq> zeroAnalysisResult"
    by (simp add: result_90_def zeroAnalysisResult_def)
  from first_call_of_A r
    ProcessFrame_cache_hit_returns_zero_value [OF h1 h2 h3 h4,
      of "service_scoring 90 90 90 90" "Delivered 7000000000"]
  show ?thesis by blast
qed




section \<open>Rate limiter\<close>



lemma tokensToAdd_zero:
  "0 \<le> elapsed \<Longrightarrow> 0 \<le> rps \<Longrightarrow> elapsed * rps < 1000000000 \<Longrightarrow> tokensToAdd elapsed rps = 0"
  by (simp add: tokensToAdd_def)


lemma allowRequest_lastUpdate: "lastUpdate (snd (allowRequest rps brst now cb)) = now"
  by (simp add: allowRequest_def Let_def)




lemma allowRequest_denied:
  "tokens cb \<le> 0 \<Longrightarrow> lastUpdate cb \<le> now \<Longrightarrow> 0 \<le> rps \<Longrightarrow>
   (now - lastUpdate cb) * rps < 1000000000 \<Longrightarrow>
   \<not> fst (allowRequest rps brst now cb) \<and> tokens (snd (allowRequest rps brst now cb)) \<le> 0"
  using tokensToAdd_zero [of "now - lastUpdate cb" rps]
  by (auto simp add: allowRequest_def Let_def)

lemma allowRequestWithConfig_existing:
  "clients rl ip = Some cb \<Longrightarrow>
   allowRequestWithConfig ip rps brst now rl =
     (fst (allowRequest rps brst now cb),
      rl\<lparr>clients := (clients rl)(ip \<mapsto> snd (allowRequest rps brst now cb))\<rparr>)"
  by (simp add: allowRequestWithConfig_def Let_def split_beta)


lemma allowRequestWithConfig_other:
  "ip' \<noteq> ip \<Longrightarrow> clients (snd (allowRequestWithConfig ip rps brst now rl)) ip' = clients rl ip'"
  by (simp add: allowRequestWithConfig_def Let_def split_beta)


lemma allowCalls_length: "length (fst (allowCalls ip rps brst ts rl)) = length ts"
  by (induction ts arbitrary: rl) (auto simp: split_beta)





lemma allowCalls_starved:
  "clients rl ip = Some cb \<Longrightarrow> tokens cb \<le> 0 \<Longrightarrow> 0 \<le> rps \<Longrightarrow>
   closelySpaced rps (lastUpdate cb) ts \<Longrightarrow>
   fst (allowCalls ip rps brst ts rl) = replicate (length ts) False"
proof (induction ts arbitrary: rl cb)
  case Nil
  then show ?case by simp
next
  case (Cons t ts)
  let ?cb1 = "snd (allowRequest rps brst t cb)"
  let ?rl1 = "rl\<lparr>clients := (clients rl)(ip \<mapsto> ?cb1)\<rparr>"
  have le: "lastUpdate cb \<le> t" and gap: "(t - lastUpdate cb) * rps < 1000000000"
    and rest: "closelySpaced rps t ts"
    using Cons.prems(4) by simp_all
  have den: "\<not> fst (allowRequest rps brst t cb)" and emp: "tokens ?cb1 \<le> 0"
    using allowRequest_denied [OF Cons.prems(2) le Cons.prems(3) gap] by simp_all
  have call: "allowRequestWithConfig ip rps brst t rl = (False, ?rl1)"
    using allowRequestWithConfig_existing [OF Cons.prems(1), of rps brst t] den by simp
  have "clients ?rl1 ip = Some ?cb1" by simp
  moreover have "closelySpaced rps (lastUpdate ?cb1) ts"
    using rest by (simp add: allowRequest_lastUpdate)
  ultimately have "fst (allowCalls ip rps brst ts ?rl1) = replicate (length ts) False"
    using Cons.IH emp Cons.prems(3) by blast
  then show ?case using call by (simp add: split_beta)
qed

text \<open>
  Claim C10. A call less than \<open>1/rps\<close> seconds after the previous one adds no token and
  still moves \<open>lastUpdate\<close> to the time of the call; so a client with an empty bucket
  whose calls are each less than \<open>1/rps\<close> seconds apart is refused every time, however
  many calls it makes and however long they go on.
\<close>

theorem exhausted_bucket_starves:
  assumes "0 < rps"
  shows "(\<forall>now cb. lastUpdate cb \<le> now \<and> (now - lastUpdate cb) * rps < 1000000000 \<longrightarrow>
            tokensToAdd (now - lastUpdate cb) rps = 0 \<and>
            lastUpdate (snd (allowRequest rps brst now cb)) = now)
       \<and> (\<forall>cb. clients rl ip = Some cb \<and> tokens cb = 0 \<and> closelySpaced rps (lastUpdate cb) ts \<longrightarrow>
            fst (allowCalls ip rps brst ts rl) = replicate (length ts) False)"
  using assms allowCalls_starved [of rl ip _ rps ts brst]
  by (auto simp add: tokensToAdd_zero allowRequest_lastUpdate)

theorem exhausted_bucket_starves_witness:
  "(0::int) < 2 \<and>
   closelySpaced 2 0 [400000000, 800000000, 1200000000, 1600000000, 2000000000] \<and>
   fst (allowCalls ''10.0.0.1'' 2 3 [400000000, 800000000, 1200000000, 1600000000, 2000000000]
          \<lparr>clients = [''10.0.0.1'' \<mapsto> \<lparr>tokens = 0, lastUpdate = 0\<rparr>], defaultRPS = 2, burst = 3\<rparr>)
     = replicate (length [400000000, 800000000, 1200000000, 1600000000, 2000000000 :: int]) False"
proof -
  have h: "(0::int) < 2" by simp
  have c: "closelySpaced 2 0 [400000000, 800000000, 1200000000, 1600000000, 2000000000]"
    by simp
  show ?thesis
    using h c exhausted_bucket_starves [OF h, of 3
        "\<lparr>clients = [''10.0.0.1'' \<mapsto> \<lparr>tokens = 0, lastUpdate = 0\<rparr>], defaultRPS = 2, burst = 3\<rparr>"
        "''10.0.0.1''" "[400000000, 800000000, 1200000000, 1600000000, 2000000000]"]
    by simp
qed

section \<open>Data URLs\<close>

lemma length_encodeStd: "length encodeStd = 64"
  by (simp add: encodeStd_def)

lemma distinct_encodeStd: "distinct encodeStd"
  by code_simp

lemma index_of_nth: "distinct xs \<Longrightarrow> n < length xs \<Longrightarrow> index_of (xs ! n) xs = Some n"
proof (induction xs arbitrary: n)
  case Nil
  then show ?case by simp
next
  case (Cons x xs)
  show ?case
  proof (cases n)
    case 0
    then show ?thesis by simp
  next
    case (Suc m)
    with Cons.prems have "m < length xs" and "xs ! m \<noteq> x" by auto
    with Cons.IH [of m] Cons.prems Suc show ?thesis by simp
  qed
qed

lemma dec6_enc6: "dec6 (enc6 n) = Some (n mod 64)"
  unfolding dec6_def enc6_def
  by (rule index_of_nth [OF distinct_encodeStd]) (simp add: length_encodeStd)

lemma enc6_in_alphabet: "enc6 n \<in> set encodeStd"
  unfolding enc6_def by (rule nth_mem) (simp add: length_encodeStd)

lemma alphabet_excludes:
  "CHR ''='' \<notin> set encodeStd" "CHR '','' \<notin> set encodeStd"
  "CHR 0x0D \<notin> set encodeStd" "CHR 0x0A \<notin> set encodeStd"
  by (simp_all add: encodeStd_def)

lemma enc6_not_special:
  "enc6 n \<noteq> CHR ''=''" "enc6 n \<noteq> CHR '',''" "enc6 n \<noteq> CHR 0x0D" "enc6 n \<noteq> CHR 0x0A"
  using enc6_in_alphabet [of n] alphabet_excludes by auto

lemma EncodeToString_chars:
  "c \<in> set (EncodeToString bs) \<Longrightarrow> c \<in> set encodeStd \<or> c = CHR ''=''"
  by (induction bs rule: EncodeToString.induct) (auto simp add: Let_def enc6_in_alphabet)

lemma EncodeToString_no_comma: "CHR '','' \<notin> set (EncodeToString bs)"
  using EncodeToString_chars [of "CHR '',''" bs] alphabet_excludes by auto

lemma EncodeToString_no_linebreak:
  "filter (\<lambda>c. c \<noteq> CHR 0x0D \<and> c \<noteq> CHR 0x0A) (EncodeToString bs) = EncodeToString bs"
proof -
  have "\<forall>c \<in> set (EncodeToString bs). c \<noteq> CHR 0x0D \<and> c \<noteq> CHR 0x0A"
    using EncodeToString_chars alphabet_excludes by fastforce
  then show ?thesis by (simp add: filter_id_conv)
qed

lemma group3:
  fixes val :: nat
  assumes "val < 16777216"
  shows "(val div 262144) mod 64 * 262144 + (val div 4096) mod 64 * 4096
           + (val div 64) mod 64 * 64 + val mod 64 = val"
proof -
  define q1 r0 where "q1 = val div 64" and "r0 = val mod 64"
  define q2 r1 where "q2 = q1 div 64" and "r1 = q1 mod 64"
  define q3 r2 where "q3 = q2 div 64" and "r2 = q2 mod 64"
  have a: "val = q1 * 64 + r0" by (simp add: q1_def r0_def)
  have b: "q1 = q2 * 64 + r1" by (simp add: q2_def r1_def)
  have c: "q2 = q3 * 64 + r2" by (simp add: q3_def r2_def)
  have q2: "val div 4096 = q2"
    by (simp add: q2_def q1_def div_mult2_eq [symmetric])
  have q3: "val div 262144 = q3"
    by (simp add: q3_def q2_def q1_def div_mult2_eq [symmetric])
  have "q3 < 64" using assms unfolding q3 [symmetric] by simp
  then have m: "q3 mod 64 = q3" by simp
  have "q3 * 262144 + r2 * 4096 + r1 * 64 + r0 = val"
    using a b c by linarith
  then show ?thesis
    unfolding q3 q2 m by (simp add: q1_def [symmetric] r0_def r1_def r2_def)
qed

lemma group_byte0:
  fixes a b c :: nat
  assumes "b < 256" "c < 256"
  shows "(a * 65536 + b * 256 + c) div 65536 = a"
proof -
  have "b * 256 + c < 65536" using assms by linarith
  then have "(b * 256 + c + a * 65536) div 65536 = a" by simp
  then show ?thesis by (simp add: ac_simps)
qed
lemma group_byte1:
  fixes a b c :: nat
  assumes "b < 256" "c < 256"
  shows "((a * 65536 + b * 256 + c) div 256) mod 256 = b"
proof -
  have "(c + (a * 256 + b) * 256) div 256 = a * 256 + b" using assms by simp
  moreover have "a * 65536 + b * 256 + c = c + (a * 256 + b) * 256" by simp
  ultimately have "(a * 65536 + b * 256 + c) div 256 = b + a * 256" by simp
  then show ?thesis using assms by simp
qed
lemma group_byte2:
  fixes a b c :: nat
  assumes "c < 256"
  shows "(a * 65536 + b * 256 + c) mod 256 = c"
proof -
  have "(a * 65536 + b * 256 + c) mod 256 = (c + (a * 256 + b) * 256) mod 256"
    by (rule arg_cong [where f = "\<lambda>x. x mod 256"]) simp
  also have "\<dots> = c mod 256" by (rule mod_mult_self1)
  also have "\<dots> = c" using assms by simp
  finally show ?thesis .
qed
lemma group_bound:
  fixes a b c :: nat
  assumes "a < 256" "b < 256" "c < 256"
  shows "a * 65536 + b * 256 + c < 16777216"
  using assms by linarith
lemma group2_low: fixes a b :: nat shows "(a * 65536 + b * 256) mod 64 = 0"
proof -
  have "a * 65536 + b * 256 = (a * 1024 + b * 4) * 64" by simp
  then show ?thesis by (simp del: mult_Suc)
qed
lemma group1_low: fixes a :: nat shows "(a * 65536) mod 64 = 0" "(a * 65536) div 64 mod 64 = 0"
proof -
  have e: "a * 65536 = (a * 1024) * 64" by simp
  show "(a * 65536) mod 64 = 0" unfolding e by simp
  have "(a * 65536) div 64 = (a * 16) * 64" by simp
  then show "(a * 65536) div 64 mod 64 = 0" by simp
qed

lemma byte_of_nat_mod: "(of_nat (x mod 256) :: byte) = of_nat x"
  by (simp add: word_of_nat_eq_iff take_bit_eq_mod)

lemma unat_byte_less: "unat (a :: byte) < 256"
  using unsigned_less [of a] by simp

lemma bytes3_digits:
  fixes a b c :: byte
  defines "val \<equiv> unat a * 65536 + unat b * 256 + unat c"
  shows "bytes3 (val div 262144 mod 64) (val div 4096 mod 64) (val div 64 mod 64) (val mod 64)
           = [a, b, c]"
proof -
  have lt: "val < 16777216"
    unfolding val_def by (rule group_bound) (rule unat_byte_less)+
  have "(of_nat (val div 65536) :: byte) = a"
    unfolding val_def using group_byte0 [OF unat_byte_less unat_byte_less, of "unat a" b c] by simp
  moreover have "(of_nat (val div 256) :: byte) = b"
  proof -
    have "(of_nat (val div 256) :: byte) = of_nat (val div 256 mod 256)"
      by (simp only: byte_of_nat_mod)
    also have "val div 256 mod 256 = unat b"
      unfolding val_def by (rule group_byte1) (rule unat_byte_less)+
    finally show ?thesis by simp
  qed
  moreover have "(of_nat val :: byte) = c"
  proof -
    have "(of_nat val :: byte) = of_nat (val mod 256)"
      by (simp only: byte_of_nat_mod)
    also have "val mod 256 = unat c"
      unfolding val_def by (rule group_byte2) (rule unat_byte_less)
    finally show ?thesis by simp
  qed
  ultimately show ?thesis
    unfolding bytes3_def Let_def group3 [OF lt] by simp
qed

lemma bytes2_digits:
  fixes a b :: byte
  defines "val \<equiv> unat a * 65536 + unat b * 256"
  shows "bytes2 (val div 262144 mod 64) (val div 4096 mod 64) (val div 64 mod 64) = [a, b]"
proof -
  have lt: "val < 16777216"
    using group_bound [OF unat_byte_less [of a] unat_byte_less [of b], of 0]
    by (simp add: val_def)
  have low: "val mod 64 = 0" unfolding val_def by (rule group2_low)
  have whole: "val div 262144 mod 64 * 262144 + val div 4096 mod 64 * 4096 + val div 64 mod 64 * 64
                 = val"
    using group3 [OF lt] by (simp only: low add_0_right)
  have "(of_nat (val div 65536) :: byte) = a"
    using group_byte0 [OF unat_byte_less [of b], of 0 "unat a"] by (simp add: val_def)
  moreover have "(of_nat (val div 256) :: byte) = b"
  proof -
    have "(of_nat (val div 256) :: byte) = of_nat (val div 256 mod 256)"
      by (simp only: byte_of_nat_mod)
    also have "val div 256 mod 256 = unat b"
      using group_byte1 [OF unat_byte_less [of b], of 0 "unat a"] by (simp add: val_def)
    finally show ?thesis by simp
  qed
  ultimately show ?thesis
    unfolding bytes2_def Let_def whole by simp
qed

lemma bytes1_digits:
  fixes a :: byte
  defines "val \<equiv> unat a * 65536"
  shows "bytes1 (val div 262144 mod 64) (val div 4096 mod 64) = [a]"
proof -
  have lt: "val < 16777216"
    using group_bound [OF unat_byte_less [of a], of 0 0] by (simp add: val_def)
  have low: "val mod 64 = 0" "val div 64 mod 64 = 0"
    unfolding val_def by (rule group1_low)+
  have whole: "val div 262144 mod 64 * 262144 + val div 4096 mod 64 * 4096 = val"
    using group3 [OF lt] by (simp only: low add_0_right mult_zero_left)
  have "(of_nat (val div 65536) :: byte) = a"
    by (simp add: val_def)
  then show ?thesis
    unfolding bytes1_def Let_def whole by simp
qed

lemma decode_quanta_group:
  "rest \<noteq> [] \<Longrightarrow>
   decode_quanta (enc6 n0 # enc6 n1 # enc6 n2 # enc6 n3 # rest) =
     (case decode_quanta rest of
        Inl e \<Rightarrow> Inl e
      | Inr bs \<Rightarrow> Inr (bytes3 (n0 mod 64) (n1 mod 64) (n2 mod 64) (n3 mod 64) @ bs))"
  by (cases rest) (simp_all add: dec6_enc6)

lemma decode_quanta_last3:
  "decode_quanta [enc6 n0, enc6 n1, enc6 n2, enc6 n3] =
     Inr (bytes3 (n0 mod 64) (n1 mod 64) (n2 mod 64) (n3 mod 64))"
  by (simp add: dec6_enc6 enc6_not_special)

lemma decode_quanta_last2:
  "decode_quanta [enc6 n0, enc6 n1, enc6 n2, CHR ''=''] =
     Inr (bytes2 (n0 mod 64) (n1 mod 64) (n2 mod 64))"
  by (simp add: dec6_enc6 enc6_not_special)

lemma decode_quanta_last1:
  "decode_quanta [enc6 n0, enc6 n1, CHR ''='', CHR ''=''] = Inr (bytes1 (n0 mod 64) (n1 mod 64))"
  by (simp add: dec6_enc6 enc6_not_special)

lemma decode_quanta_EncodeToString: "decode_quanta (EncodeToString bs) = Inr bs"
proof (induction bs rule: EncodeToString.induct)
  case (1 a b c rest)
  let ?val = "unat a * 65536 + unat b * 256 + unat c"
  show ?case
  proof (cases "EncodeToString rest = []")
    case True
    then have "rest = []" by (cases rest rule: EncodeToString.cases) (simp_all add: Let_def)
    then show ?thesis
      using decode_quanta_last3 [of "?val div 262144" "?val div 4096" "?val div 64" ?val]
        bytes3_digits [of a b c]
      by (simp add: Let_def)
  next
    case False
    from decode_quanta_group [OF False, of "?val div 262144" "?val div 4096" "?val div 64" ?val]
      "1.IH" bytes3_digits [of a b c]
    show ?thesis by (simp add: Let_def)
  qed
next
  case (2 a b)
  let ?val = "unat a * 65536 + unat b * 256"
  from decode_quanta_last2 [of "?val div 262144" "?val div 4096" "?val div 64"]
    bytes2_digits [of a b]
  show ?case by (simp add: Let_def)
next
  case (3 a)
  let ?val = "unat a * 65536"
  from decode_quanta_last1 [of "?val div 262144" "?val div 4096"] bytes1_digits [of a]
  show ?case by (simp add: Let_def)
next
  case 4
  show ?case by simp
qed

lemma DecodeString_EncodeToString: "DecodeString (EncodeToString bs) = Inr bs"
  by (simp add: DecodeString_def EncodeToString_no_linebreak decode_quanta_EncodeToString)

lemma split_on_not_Nil: "split_on sep s \<noteq> []"
  by (induction s) (auto split: list.splits)

lemma split_on_no_sep: "sep \<notin> set s \<Longrightarrow> split_on sep s = [s]"
  by (induction s) auto

lemma split_on_prefix:
  "sep \<notin> set m \<Longrightarrow> split_on sep (m @ sep # p) = m # split_on sep p"
  by (induction m) auto

lemma length_split_on: "length (split_on sep s) = Suc (count_list s sep)"
proof (induction s)
  case Nil
  show ?case by simp
next
  case (Cons x xs)
  then show ?case
    using split_on_not_Nil [of sep xs] by (cases "split_on sep xs") auto
qed

lemma one_separator:
  assumes "count_list s sep = 1"
  shows "\<exists>m p. s = m @ sep # p \<and> sep \<notin> set m \<and> sep \<notin> set p"
proof -
  from assms have "sep \<in> set s" by (metis count_list_0_iff zero_neq_one)
  then obtain m p where s: "s = m @ sep # p" and m: "sep \<notin> set m"
    by (auto dest: split_list_first)
  from m have "count_list m sep = 0" by (simp add: count_list_0_iff)
  with assms s have "count_list p sep = 0" by simp
  then have "sep \<notin> set p" by (simp add: count_list_0_iff)
  with s m show ?thesis by blast
qed

lemma payload_of_prefix: "CHR '','' \<notin> set m \<Longrightarrow> payload_of (m @ CHR '','' # p) = p"
proof -
  assume "CHR '','' \<notin> set m"
  then have "dropWhile (\<lambda>c. c \<noteq> CHR '','') (m @ CHR '','' # p) = CHR '','' # p"
    by (induction m) auto
  then show ?thesis by (simp add: payload_of_def)
qed

lemma extract_one_comma:
  assumes "CHR '','' \<notin> set m" and "CHR '','' \<notin> set p"
  shows "WebSocketHandler_extractImageData (m @ CHR '','' # p) = DecodeString p"
    and "StreamHandler_extractImageData (m @ CHR '','' # p) = DecodeString p"
proof -
  have parts: "split_on CHR '','' (m @ CHR '','' # p) = [m, p]"
    using split_on_prefix [OF assms(1), of p] split_on_no_sep [OF assms(2)] by simp
  show "WebSocketHandler_extractImageData (m @ CHR '','' # p) = DecodeString p"
    unfolding WebSocketHandler_extractImageData_def parts Let_def
    by (simp split: sum.splits)
  show "StreamHandler_extractImageData (m @ CHR '','' # p) = DecodeString p"
    unfolding StreamHandler_extractImageData_def parts Let_def
    by (simp split: sum.splits)
qed

lemma extract_not_one_comma:
  assumes "count_list dataURL CHR '','' \<noteq> 1"
  shows "WebSocketHandler_extractImageData dataURL = Inl ErrBadHandshake"
    and "StreamHandler_extractImageData dataURL = Inl InvalidDataURLFormat"
proof -
  have "length (split_on CHR '','' dataURL) \<noteq> 2"
    using assms by (simp add: length_split_on)
  then show "WebSocketHandler_extractImageData dataURL = Inl ErrBadHandshake"
    and "StreamHandler_extractImageData dataURL = Inl InvalidDataURLFormat"
    by (simp_all add: WebSocketHandler_extractImageData_def StreamHandler_extractImageData_def
        Let_def)
qed

text \<open>
  Claim C8. For every byte sequence \<open>B\<close> and every prefix \<open>M\<close> without a comma, both
  handlers decode \<open>M\<close>, a comma and the standard base64 encoding of \<open>B\<close> to exactly \<open>B\<close>.
  An input whose number of commas is not one is rejected with the handler's format
  error; an input with one comma gets the verdict of the decoder on the part after the
  comma, so an invalid payload is rejected with the decoder's error.
\<close>

theorem extractImageData_inverts_encoding:
  "(CHR '','' \<notin> set M \<longrightarrow>
      WebSocketHandler_extractImageData (M @ '','' @ EncodeToString B) = Inr B \<and>
      StreamHandler_extractImageData (M @ '','' @ EncodeToString B) = Inr B) \<and>
   (count_list dataURL CHR '','' \<noteq> 1 \<longrightarrow>
      WebSocketHandler_extractImageData dataURL = Inl ErrBadHandshake \<and>
      StreamHandler_extractImageData dataURL = Inl InvalidDataURLFormat) \<and>
   (count_list dataURL CHR '','' = 1 \<longrightarrow>
      WebSocketHandler_extractImageData dataURL = DecodeString (payload_of dataURL) \<and>
      StreamHandler_extractImageData dataURL = DecodeString (payload_of dataURL))"
proof -
  have enc: "WebSocketHandler_extractImageData (M @ '','' @ EncodeToString B) = Inr B \<and>
      StreamHandler_extractImageData (M @ '','' @ EncodeToString B) = Inr B"
    if m: "CHR '','' \<notin> set M"
  proof -
    have e: "M @ '','' @ EncodeToString B = M @ CHR '','' # EncodeToString B" by simp
    show ?thesis
      unfolding e
      by (simp only: extract_one_comma [OF m EncodeToString_no_comma]
          DecodeString_EncodeToString simp_thms)
  qed
  have bad: "WebSocketHandler_extractImageData dataURL = Inl ErrBadHandshake \<and>
      StreamHandler_extractImageData dataURL = Inl InvalidDataURLFormat"
    if n: "count_list dataURL CHR '','' \<noteq> 1"
    by (simp only: extract_not_one_comma [OF n] simp_thms)
  have one: "WebSocketHandler_extractImageData dataURL = DecodeString (payload_of dataURL) \<and>
      StreamHandler_extractImageData dataURL = DecodeString (payload_of dataURL)"
    if n: "count_list dataURL CHR '','' = 1"
  proof -
    from one_separator [OF n] obtain m p where s: "dataURL = m @ CHR '','' # p"
      and m: "CHR '','' \<notin> set m" and p: "CHR '','' \<notin> set p"
      by blast
    show ?thesis
      unfolding s
      by (simp only: extract_one_comma [OF m p] payload_of_prefix [OF m] simp_thms)
  qed
  from enc bad one show ?thesis by blast
qed

theorem extractImageData_inverts_encoding_witness:
  "CHR '','' \<notin> set ''data:image/jpeg;base64'' \<and>
   EncodeToString [72, 105, 33, 0, 255] = ''SGkhAP8='' \<and>
   WebSocketHandler_extractImageData (''data:image/jpeg;base64'' @ '','' @ ''SGkhAP8='')
     = Inr [72, 105, 33, 0, 255] \<and>
   StreamHandler_extractImageData (''data:image/jpeg;base64'' @ '','' @ ''SGkhAP8='')
     = Inr [72, 105, 33, 0, 255] \<and>
   count_list ''data:image/jpeg,base64,SGkh'' CHR '','' \<noteq> 1 \<and>
   WebSocketHandler_extractImageData ''data:image/jpeg,base64,SGkh'' = Inl ErrBadHandshake \<and>
   StreamHandler_extractImageData ''data:image/jpeg,base64,SGkh'' = Inl InvalidDataURLFormat \<and>
   count_list ''data:image/jpeg;base64,SGk'' CHR '','' = 1 \<and>
   DecodeString (payload_of ''data:image/jpeg;base64,SGk'') = Inl CorruptInputError \<and>
   WebSocketHandler_extractImageData ''data:image/jpeg;base64,SGk'' = Inl CorruptInputError \<and>
   StreamHandler_extractImageData ''data:image/jpeg;base64,SGk'' = Inl CorruptInputError"
proof -
  have h1: "CHR '','' \<notin> set ''data:image/jpeg;base64''" by simp
  have enc: "EncodeToString [72, 105, 33, 0, 255] = ''SGkhAP8=''"
    by (simp add: enc6_def encodeStd_def Let_def)
  have h2: "count_list ''data:image/jpeg,base64,SGkh'' CHR '','' \<noteq> 1" by simp
  have h3: "count_list ''data:image/jpeg;base64,SGk'' CHR '','' = 1" by simp
  have dec: "DecodeString (payload_of ''data:image/jpeg;base64,SGk'') = Inl CorruptInputError"
    by (simp add: DecodeString_def payload_of_def)
  note a = extractImageData_inverts_encoding
    [of "''data:image/jpeg;base64''" "[72, 105, 33, 0, 255]" "''data:image/jpeg,base64,SGkh''"]
  note b = extractImageData_inverts_encoding
    [of "''data:image/jpeg;base64''" "[72, 105, 33, 0, 255]" "''data:image/jpeg;base64,SGk''"]
  note r1 = a [THEN conjunct1, THEN mp, OF h1, unfolded enc]
  note r2 = a [THEN conjunct2, THEN conjunct1, THEN mp, OF h2]
  note r3 = b [THEN conjunct2, THEN conjunct2, THEN mp, OF h3, unfolded dec]
  show ?thesis
    by (intro conjI h1 enc h2 h3 dec r1 [THEN conjunct1] r1 [THEN conjunct2]
        r2 [THEN conjunct1] r2 [THEN conjunct2] r3 [THEN conjunct1] r3 [THEN conjunct2])
qed

end
